theory Spec2Isabelle
  imports Complex_Main "HOL-Library.Sublist"
begin

section \<open>JavaScript values used by the generic renderer\<close>

text \<open>
  Strings are byte lists holding the UTF-8 encoding of the JavaScript string, so the
  Chinese literals of the source are written as their bytes. A value of TypeScript type
  \<open>number | string\<close> is a \<open>num_or_str\<close>; \<open>undefined\<close> is \<open>None\<close> of the
  option type around it.
\<close>

datatype num_or_str = Num real | NaN | Str string

text \<open>Truthiness as \<open>Array.prototype.find(s => s)\<close> and \<open>||\<close> test it.\<close>

definition truthy :: "num_or_str option \<Rightarrow> bool" where
  "truthy v =
     (case v of
        None \<Rightarrow> False
      | Some (Num n) \<Rightarrow> n \<noteq> 0
      | Some NaN \<Rightarrow> False
      | Some (Str s) \<Rightarrow> s \<noteq> [])"

text \<open>
  \<open>String.prototype.trim\<close> removes WhiteSpace and LineTerminator code points from both
  ends; \<open>white_space\<close> lists their UTF-8 encodings (U+0009..U+000D, U+0020, U+00A0,
  U+1680, U+2000..U+200A, U+2028, U+2029, U+202F, U+205F, U+3000, U+FEFF).
\<close>

definition white_space :: "string list" where
  "white_space =
    [[CHR 0x09], [CHR 0x0A], [CHR 0x0B], [CHR 0x0C], [CHR 0x0D], [CHR 0x20],
     [CHR 0xC2, CHR 0xA0],
     [CHR 0xE1, CHR 0x9A, CHR 0x80],
     [CHR 0xE2, CHR 0x80, CHR 0x80], [CHR 0xE2, CHR 0x80, CHR 0x81],
     [CHR 0xE2, CHR 0x80, CHR 0x82], [CHR 0xE2, CHR 0x80, CHR 0x83],
     [CHR 0xE2, CHR 0x80, CHR 0x84], [CHR 0xE2, CHR 0x80, CHR 0x85],
     [CHR 0xE2, CHR 0x80, CHR 0x86], [CHR 0xE2, CHR 0x80, CHR 0x87],
     [CHR 0xE2, CHR 0x80, CHR 0x88], [CHR 0xE2, CHR 0x80, CHR 0x89],
     [CHR 0xE2, CHR 0x80, CHR 0x8A],
     [CHR 0xE2, CHR 0x80, CHR 0xA8], [CHR 0xE2, CHR 0x80, CHR 0xA9],
     [CHR 0xE2, CHR 0x80, CHR 0xAF],
     [CHR 0xE2, CHR 0x81, CHR 0x9F],
     [CHR 0xE3, CHR 0x80, CHR 0x80],
     [CHR 0xEF, CHR 0xBB, CHR 0xBF]]"

function trimStart :: "string \<Rightarrow> string" where
  "trimStart s =
     (case find (\<lambda>w. prefix w s) white_space of
        None \<Rightarrow> s
      | Some w \<Rightarrow> trimStart (drop (length w) s))"
  by pat_completeness auto
termination
proof (relation "measure length")
  show "wf (measure length)" by simp
next
  fix s w assume "find (\<lambda>w. prefix w s) white_space = Some w"
  then have "w \<in> set white_space" and "prefix w s"
    by (auto simp: find_Some_iff)
  then have "w \<noteq> []" "length w \<le> length s"
    by (auto simp: white_space_def prefix_length_le)
  then show "(drop (length w) s, s) \<in> measure length"
    by (cases s) auto
qed

function trimEnd :: "string \<Rightarrow> string" where
  "trimEnd s =
     (case find (\<lambda>w. suffix w s) white_space of
        None \<Rightarrow> s
      | Some w \<Rightarrow> trimEnd (take (length s - length w) s))"
  by pat_completeness auto
termination
proof (relation "measure length")
  show "wf (measure length)" by simp
next
  fix s w assume "find (\<lambda>w. suffix w s) white_space = Some w"
  then have "w \<in> set white_space" and "suffix w s"
    by (auto simp: find_Some_iff)
  then have "w \<noteq> []" "length w \<le> length s"
    by (auto simp: white_space_def suffix_length_le)
  then show "(take (length s - length w) s, s) \<in> measure length"
    by (cases s) auto
qed

definition trim :: "string \<Rightarrow> string" where
  "trim s = trimEnd (trimStart s)"

text \<open>\<open>Array.prototype.join\<close> on strings.\<close>

fun join :: "string \<Rightarrow> string list \<Rightarrow> string" where
  "join sep [] = []"
| "join sep [x] = x"
| "join sep (x # y # ys) = x @ sep @ join sep (y # ys)"

text \<open>
  \<open>classnames(a, b, ...)\<close> of the npm package of that name, on string or undefined
  arguments: the truthy ones joined by one space.
\<close>

definition classnames :: "string option list \<Rightarrow> string" where
  "classnames args = join '' '' (filter (\<lambda>s. s \<noteq> []) (List.map_filter (\<lambda>a. a) args))"

text \<open>JSON values: what the free-form \<open>props\<close> bag of a slot element can hold.\<close>

datatype json =
    JNull
  | JBool bool
  | JNumber real
  | JString string
  | JArray "json list"
  | JObject "(string \<times> json) list"

text \<open>\<open>React.CSSProperties\<close> and the CSS module \<open>styles\<close>: dictionaries of strings.\<close>

type_synonym css = "string \<rightharpoonup> string"

section \<open>Generic render elements (the toolbar schema)\<close>

datatype span_value = SpanNumber real | SpanString string

datatype align_value = FlexStart | Center | FlexEnd | SpaceBetween | SpaceAround

fun align_css :: "align_value \<Rightarrow> string" where
  "align_css FlexStart = ''flex-start''"
| "align_css Center = ''center''"
| "align_css FlexEnd = ''flex-end''"
| "align_css SpaceBetween = ''space-between''"
| "align_css SpaceAround = ''space-around''"

datatype button_size = Large | Middle | Small

record search_key_option =
  label :: string
  option_value :: num_or_str

record search_element =
  wrapperClassName :: "string option"
  wrapperStyle :: "css option"
  placeholder :: "string option"
  allowClear :: "bool option"
  searchButtonText :: "string option"
  searchButtonSize :: "button_size option"
  searchKeys :: "search_key_option list option"
  searchKeyDefaultValue :: "num_or_str option"

record slot_element =
  slot :: string
  props :: "(string \<rightharpoonup> json) option"

record insert_button_element =
  insertButtonClassName :: "string option"
  insertButtonStyle :: "css option"
  insertButtonText :: "string option"
  showIcon :: "bool option"

record display_column_selector_element =
  selectorButtonText :: "string option"
  selectorButtonType :: "string option"

text \<open>The tagged union \<open>DripTableGenericRenderElement\<close>: the tag and its payload.\<close>

datatype element_type =
    Spacer
  | Text string
  | Html string
  | Search search_element
  | Slot slot_element
  | InsertButton insert_button_element
  | DisplayColumnSelector display_column_selector_element

text \<open>\<open>GenericRenderElementBasic\<close>, the fields every element carries, with its variant.\<close>

record element =
  className :: "string option"
  style :: "css option"
  span_width :: "span_value option"
  align :: "align_value option"
  visible :: "bool option"
  type :: element_type

section \<open>Table properties and state\<close>

record column =
  key :: string
  title :: string
  hidable :: "bool option"

record schema =
  schema_id :: "num_or_str option"
  columns :: "column list"

text \<open>
  \<open>tableProps\<close>: \<open>'r\<close> is the generic \<open>RecordType\<close>, \<open>'c\<close> the type of slot render
  functions. An optional callback is the flag saying whether the consumer passed it
  (\<open>tableProps.onSearch?.(...)\<close> calls it only then); what it is called with is a
  \<open>call\<close> below.
\<close>

record ('r, 'c) table_props =
  schema :: schema
  dataSource :: "'r list"
  slots :: "(string \<rightharpoonup> 'c) option"
  onSearch :: bool
  onInsertButtonClick :: bool
  onDisplayColumnKeysChange :: bool

text \<open>\<open>DripTableTableInformation\<close>: the object \<open>{ id, dataSource }\<close>.\<close>

record 'r table_information =
  info_id :: "num_or_str option"
  info_dataSource :: "'r list"

text \<open>
  \<open>tableState\<close> (\<open>IDripTableContext\<close>): only \<open>displayColumnKeys\<close> is read or written
  here; the other fields are the record's extension.
\<close>

record table_state =
  displayColumnKeys :: "string list"

text \<open>
  The component's hooks: three \<open>useState\<close> cells and the \<open>useMemo\<close> cell of
  \<open>tableInfo\<close>, which stores the dependency array with the value computed for it.
\<close>

text \<open>
  The object literal behind the record, property by property: the record's fields
  \<open>info_id\<close> and \<open>info_dataSource\<close> are the values of the properties named \<open>id\<close>
  and \<open>dataSource\<close>, and the object has no other property. \<open>getInfoProperty\<close> is a
  property read \<open>tableInfo[name]\<close>; \<open>None\<close> is \<open>undefined\<close>.
\<close>

datatype 'r info_property = IdValue "num_or_str option" | DataSourceValue "'r list"

definition tableInfoProperties :: "'r table_information \<Rightarrow> (string \<times> 'r info_property) list" where
  "tableInfoProperties info =
     [(''id'', IdValue (info_id info)), (''dataSource'', DataSourceValue (info_dataSource info))]"

definition getInfoProperty :: "'r table_information \<Rightarrow> string \<Rightarrow> 'r info_property option" where
  "getInfoProperty info name = map_of (tableInfoProperties info) name"

record 'r hooks =
  displayColumnVisible :: bool
  searchStr :: string
  searchKey :: "num_or_str option"
  tableInfoMemo :: "((num_or_str option \<times> 'r list) \<times> 'r table_information) option"

record search_params =
  param_searchKey :: "num_or_str option"
  param_searchStr :: string

text \<open>An invocation of one of the consumer's callbacks, with its arguments.\<close>

datatype ('r, 'e) call =
    OnSearch search_params "'r table_information"
  | OnInsertButtonClick 'e "'r table_information"
  | OnDisplayColumnKeysChange "string list" "'r table_information"

section \<open>The rendered tree\<close>

text \<open>
  What \<open>GenericRender\<close> returns is a tree of driver components (\<open>Row\<close>, \<open>Col\<close>,
  \<open>Select\<close>, \<open>Input.Search\<close>, \<open>Button\<close>, \<open>Dropdown\<close>, \<open>Menu\<close>) and HTML
  elements. The driver is the fixed meaning of these nodes; each node is recorded with
  the properties it receives. Event handlers are the functions of the next section.
\<close>

record select_option_node =
  opt_key :: nat
  opt_value :: num_or_str
  opt_children :: string

record select_node =
  sel_defaultValue :: "num_or_str option"
  sel_className :: "string option"
  sel_value :: "num_or_str option"
  sel_children :: "select_option_node list"

datatype enter_button = EnterButtonText string | EnterButtonTrue

record input_search_node =
  inp_allowClear :: "bool option"
  inp_placeholder :: "string option"
  inp_enterButton :: enter_button
  inp_size :: "button_size option"
  inp_value :: string

record search_node =
  search_style :: "css option"
  search_className :: string
  search_select :: "select_node option"
  search_input :: input_search_node

record 'r slot_node =
  slot_props :: "string \<rightharpoonup> json"
  slot_className :: string
  slot_slotType :: string
  slot_schema :: schema
  slot_dataSource :: "'r list"

record insert_button_node =
  btn_className :: string
  btn_type :: string
  btn_icon :: bool
  btn_style :: "css option"
  btn_children :: "string option"

record menu_item_node =
  item_key :: string
  item_icon_opacity :: nat
  item_children :: string

record dropdown_node =
  dd_className :: "string option"
  dd_trigger :: "string list"
  dd_overlay :: "menu_item_node list"
  dd_visible :: bool
  dd_button_type :: "string option"
  dd_button_children :: string

text \<open>
  What a property read on the \<open>slots\<close> object can give: a render function the consumer
  registered, or the member of that name which every JavaScript object inherits from
  \<open>Object.prototype\<close>.
\<close>

datatype 'c slot_value = Registered 'c | Inherited string

datatype ('r, 'c) content =
    H3 "string option" string
  | RichText "string option" string
  | SearchDiv search_node
  | SlotComponent "'c slot_value" "'r slot_node"
  | ErrorSpan "string option" string
  | ButtonNode insert_button_node
  | DropdownNode dropdown_node

record ('r, 'c) col_node =
  col_key :: nat
  col_className :: "string option"
  col_style :: css
  col_span :: "real option"
  col_children :: "('r, 'c) content option"

record ('r, 'c) generic_render_node =
  root_className :: "string option"
  root_style :: "css option"
  row_children :: "('r, 'c) col_node list"

section \<open>The component \<open>GenericRender\<close>\<close>

text \<open>
  The initial value of the \<open>searchKey\<close> state:
  \<open>props.schemas.map(s => (s.type === 'search' ? s.searchKeyDefaultValue : '')).find(s => s)\<close>.
\<close>

definition initialSearchKey :: "element list \<Rightarrow> num_or_str option" where
  "initialSearchKey schemas =
     (case find truthy
             (map (\<lambda>s. case type s of Search c \<Rightarrow> searchKeyDefaultValue c | _ \<Rightarrow> Some (Str []))
                schemas) of
        None \<Rightarrow> None
      | Some v \<Rightarrow> v)"

definition initialHooks :: "element list \<Rightarrow> 'r hooks" where
  "initialHooks schemas =
     \<lparr> displayColumnVisible = False, searchStr = [], searchKey = initialSearchKey schemas,
       tableInfoMemo = None \<rparr>"

text \<open>
  \<open>React.useMemo(factory, deps)\<close>: the stored value is kept while the dependency array
  is unchanged, and \<open>factory\<close> runs again otherwise. React compares dependencies with
  \<open>Object.is\<close>; values are immutable here, so the comparison is equality.
\<close>

definition useMemo :: "('d \<Rightarrow> 'v) \<Rightarrow> 'd \<Rightarrow> ('d \<times> 'v) option \<Rightarrow> 'd \<times> 'v" where
  "useMemo factory deps cell =
     (case cell of
        None \<Rightarrow> (deps, factory deps)
      | Some (d, v) \<Rightarrow> if d = deps then (d, v) else (deps, factory deps))"

text \<open>
  \<open>tableInfo\<close>: \<open>{ id: tableProps.schema.id, dataSource: tableProps.dataSource }\<close>,
  memoised on \<open>[tableProps.schema.id, tableProps.dataSource]\<close>. \<open>useTableInfo\<close> is the
  hook call of one render: it returns \<open>tableInfo\<close> and the hooks with the cell refreshed.
\<close>

definition tableInfoFactory :: "num_or_str option \<times> 'r list \<Rightarrow> 'r table_information" where
  "tableInfoFactory deps = \<lparr> info_id = fst deps, info_dataSource = snd deps \<rparr>"

definition useTableInfo ::
  "('r, 'c) table_props \<Rightarrow> 'r hooks \<Rightarrow> 'r table_information \<times> 'r hooks" where
  "useTableInfo tableProps h =
     (let cell = useMemo tableInfoFactory
                   (schema_id (schema tableProps), dataSource tableProps) (tableInfoMemo h)
      in (snd cell, h\<lparr> tableInfoMemo := Some cell \<rparr>))"

text \<open>The two Chinese literals of the source, as UTF-8 bytes.\<close>

definition slot_error_prefix :: string where
  "slot_error_prefix =
     [CHR 0xE8, CHR 0x87, CHR 0xAA, CHR 0xE5, CHR 0xAE, CHR 0x9A, CHR 0xE4, CHR 0xB9, CHR 0x89,
      CHR 0xE6, CHR 0x8F, CHR 0x92, CHR 0xE6, CHR 0xA7, CHR 0xBD, CHR 0xE7, CHR 0xBB, CHR 0x84,
      CHR 0xE4, CHR 0xBB, CHR 0xB6, CHR 0xE6, CHR 0xB8, CHR 0xB2, CHR 0xE6, CHR 0x9F, CHR 0x93,
      CHR 0xE5, CHR 0x87, CHR 0xBD, CHR 0xE6, CHR 0x95, CHR 0xB0]
     @ '' tableProps.slots[''
     @ [CHR 0x27]"

definition slot_error_suffix :: string where
  "slot_error_suffix =
     [CHR 0x27] @ ''] ''
     @ [CHR 0xE4, CHR 0xB8, CHR 0x8D, CHR 0xE5, CHR 0xAD, CHR 0x98, CHR 0xE5, CHR 0x9C, CHR 0xA8]"

definition default_selector_text :: string where
  "default_selector_text =
     [CHR 0xE5, CHR 0xB1, CHR 0x95, CHR 0xE7, CHR 0xA4, CHR 0xBA, CHR 0xE5, CHR 0x88, CHR 0x97]"

text \<open>\<open>a || b\<close> on an optional string: the empty string is falsy.\<close>

definition str_or :: "string option \<Rightarrow> 'a \<Rightarrow> (string \<Rightarrow> 'a) \<Rightarrow> 'a" where
  "str_or a b f = (case a of None \<Rightarrow> b | Some s \<Rightarrow> if s = [] then b else f s)"

text \<open>
  \<open>tableProps.slots\<close> is an object the consumer writes as a literal; its own
  properties are the registered render functions. A property read \<open>slots[name]\<close> looks
  among the own properties first and then along the prototype chain, that is in
  \<open>Object.prototype\<close>, whose members (functions, and the object that \<open>__proto__\<close>
  gives) are all truthy.
\<close>

definition object_prototype_names :: "string list" where
  "object_prototype_names =
     [''constructor'', ''hasOwnProperty'', ''isPrototypeOf'', ''propertyIsEnumerable'',
      ''toLocaleString'', ''toString'', ''valueOf'', ''__proto__'',
      ''__defineGetter__'', ''__defineSetter__'', ''__lookupGetter__'', ''__lookupSetter__'']"

definition getProperty :: "(string \<rightharpoonup> 'c) \<Rightarrow> string \<Rightarrow> 'c slot_value option" where
  "getProperty obj name =
     (case obj name of
        Some f \<Rightarrow> Some (Registered f)
      | None \<Rightarrow> if name \<in> set object_prototype_names then Some (Inherited name) else None)"

text \<open>\<open>tableProps.slots?.[config.slot] || tableProps.slots?.default\<close>.\<close>

definition resolveSlot :: "(string \<rightharpoonup> 'c) option \<Rightarrow> string \<Rightarrow> 'c slot_value option" where
  "resolveSlot registry name =
     (case registry of
        None \<Rightarrow> None
      | Some obj \<Rightarrow>
          (case getProperty obj name of
             Some v \<Rightarrow> Some v
           | None \<Rightarrow> getProperty obj ''default''))"

text \<open>The names of the properties that the \<open>Slot\<close> element sets after the spread.\<close>

definition slot_own_props :: "string set" where
  "slot_own_props =
     {''className'', ''slotType'', ''driver'', ''schema'', ''dataSource'', ''onSearch''}"

text \<open>
  The properties that \<open>React.createElement\<close> takes for itself: they do not reach the
  component, also when they come from the spread of \<open>config.props\<close>.
\<close>

definition react_reserved_props :: "string set" where
  "react_reserved_props = {''key'', ''ref'', ''__self'', ''__source''}"

text \<open>
  \<open>renderColumnContent\<close>. \<open>styles\<close> is the imported CSS module \<open>index.module.less\<close>, a
  dictionary from the class names written in the source to the generated ones.
\<close>

definition renderColumnContent ::
  "(string \<rightharpoonup> string) \<Rightarrow> ('r, 'c) table_props \<Rightarrow> 'z table_state_scheme \<Rightarrow> 'r hooks
     \<Rightarrow> element \<Rightarrow> ('r, 'c) content option" where
  "renderColumnContent styles tableProps tableState h config =
     (case type config of
        Spacer \<Rightarrow> None
      | Text txt \<Rightarrow> Some (H3 (styles ''generic-render-text-element'') txt)
      | Html html \<Rightarrow> Some (RichText (styles ''generic-render-html-element'') html)
      | Search c \<Rightarrow>
          Some (SearchDiv
            \<lparr> search_style = wrapperStyle c,
              search_className =
                classnames [styles ''generic-render-search-element'', wrapperClassName c],
              search_select =
                (case searchKeys c of
                   None \<Rightarrow> None
                 | Some keys \<Rightarrow>
                     Some \<lparr> sel_defaultValue = searchKeyDefaultValue c,
                            sel_className = styles ''generic-render-search-element__select'',
                            sel_value = searchKey h,
                            sel_children =
                              map (\<lambda>(i, item).
                                     \<lparr> opt_key = i, opt_value = option_value item,
                                       opt_children = label item \<rparr>)
                                (enumerate 0 keys) \<rparr>),
              search_input =
                \<lparr> inp_allowClear = allowClear c,
                  inp_placeholder = placeholder c,
                  inp_enterButton = str_or (searchButtonText c) EnterButtonTrue EnterButtonText,
                  inp_size = searchButtonSize c,
                  inp_value = searchStr h \<rparr> \<rparr>)
      | Slot c \<Rightarrow>
          (case resolveSlot (slots tableProps) (slot c) of
             Some Slot_fn \<Rightarrow>
               Some (SlotComponent Slot_fn
                 \<lparr> slot_props =
                     (case props c of
                        None \<Rightarrow> Map.empty
                      | Some p \<Rightarrow> p |` (- (slot_own_props \<union> react_reserved_props))),
                   slot_className =
                     classnames
                       [styles ''generic-render-slot-element'',
                        (case props c of
                           None \<Rightarrow> Some []
                         | Some p \<Rightarrow>
                             (case p ''className'' of Some (JString s) \<Rightarrow> Some s | _ \<Rightarrow> Some []))],
                   slot_slotType = slot c,
                   slot_schema = schema tableProps,
                   slot_dataSource = dataSource tableProps \<rparr>)
           | None \<Rightarrow>
               Some (ErrorSpan (styles ''generic-render-slot-element__error'')
                       (slot_error_prefix @ slot c @ slot_error_suffix)))
      | InsertButton c \<Rightarrow>
          Some (ButtonNode
            \<lparr> btn_className =
                classnames [styles ''generic-render-insert-button-element'', insertButtonClassName c],
              btn_type = ''primary'',
              btn_icon = (showIcon c = Some True),
              btn_style = insertButtonStyle c,
              btn_children = insertButtonText c \<rparr>)
      | DisplayColumnSelector c \<Rightarrow>
          (let hidableColumns = filter (\<lambda>c. hidable c = Some True) (columns (schema tableProps))
           in if length hidableColumns = 0 then None
              else Some (DropdownNode
                \<lparr> dd_className = styles ''generic-render-display-column-selector-element'',
                  dd_trigger = [''click''],
                  dd_overlay =
                    map (\<lambda>column.
                           \<lparr> item_key = key column,
                             item_icon_opacity =
                               (if key column \<in> set (displayColumnKeys tableState) then 1 else 0),
                             item_children = title column \<rparr>)
                      hidableColumns,
                  dd_visible = displayColumnVisible h,
                  dd_button_type = selectorButtonType c,
                  dd_button_children =
                    str_or (selectorButtonText c) default_selector_text (\<lambda>s. s) \<rparr>)))"

text \<open>The \<open>style\<close> object of the \<open>Col\<close> at \<open>index\<close> of \<open>n\<close> elements; the spread comes last.\<close>

definition colStyle :: "element \<Rightarrow> nat \<Rightarrow> nat \<Rightarrow> css" where
  "colStyle item index n =
     (Map.empty
        (''width'' :=
           (case span_width item of
              Some (SpanString s) \<Rightarrow> if s \<noteq> ''flex-auto'' then Some s else None
            | _ \<Rightarrow> None),
         ''display'' \<mapsto> ''flex'',
         ''flex'' :=
           (if span_width item = Some (SpanString ''flex-auto'') then Some ''1 1 auto'' else None),
         ''justifyContent'' \<mapsto> (case align item of Some a \<Rightarrow> align_css a | None \<Rightarrow> ''center''),
         ''paddingLeft'' \<mapsto> (if index = 0 then ''0'' else ''3px''),
         ''paddingRight'' \<mapsto> (if int index = int n - 1 then ''3px'' else ''0'')))
     ++ (case style item of None \<Rightarrow> Map.empty | Some st \<Rightarrow> st)"

text \<open>
  The component body after the hooks: \<open>null\<close> for an empty \<open>props.schemas\<close>, else the
  \<open>Row\<close> with one \<open>Col\<close> per element.
\<close>

definition GenericRender ::
  "(string \<rightharpoonup> string) \<Rightarrow> css option \<Rightarrow> element list \<Rightarrow> ('r, 'c) table_props
     \<Rightarrow> 'z table_state_scheme \<Rightarrow> 'r hooks \<Rightarrow> ('r, 'c) generic_render_node option" where
  "GenericRender styles style_prop schemas tableProps tableState h =
     (if length schemas > 0 then
        Some \<lparr> root_className = styles ''generic-render'',
               root_style = style_prop,
               row_children =
                 map (\<lambda>(index, item).
                        \<lparr> col_key = index,
                          col_className = className item,
                          col_style = colStyle item index (length schemas),
                          col_span =
                            (case span_width item of Some (SpanNumber n) \<Rightarrow> Some n | _ \<Rightarrow> None),
                          col_children =
                            (if visible item \<noteq> Some False
                             then renderColumnContent styles tableProps tableState h item
                             else None) \<rparr>)
                   (enumerate 0 schemas) \<rparr>
      else None)"

section \<open>Event handlers\<close>

text \<open>\<open>Select.onChange\<close>: \<open>value => setSearchKey(value)\<close>.\<close>

definition select_onChange :: "num_or_str option \<Rightarrow> 'r hooks \<Rightarrow> 'r hooks" where
  "select_onChange v h = h\<lparr> searchKey := v \<rparr>"

text \<open>\<open>Input.Search.onChange\<close>: \<open>e => setSearchStr(e.target.value.trim())\<close>.\<close>

definition input_onChange :: "string \<Rightarrow> 'r hooks \<Rightarrow> 'r hooks" where
  "input_onChange target_value h = h\<lparr> searchStr := trim target_value \<rparr>"

text \<open>
  \<open>Input.Search.onSearch\<close>:
  \<open>(value) => { tableProps.onSearch?.({ searchKey, searchStr: value }, tableInfo); }\<close>.
\<close>

definition input_onSearch ::
  "('r, 'c) table_props \<Rightarrow> 'r table_information \<Rightarrow> 'r hooks \<Rightarrow> string \<Rightarrow> ('r, 'e) call list" where
  "input_onSearch tableProps info h v =
     (if onSearch tableProps
      then [OnSearch \<lparr> param_searchKey = searchKey h, param_searchStr = v \<rparr> info]
      else [])"

text \<open>
  The \<open>onSearch\<close> property given to a slot:
  \<open>(searchParams) => { tableProps.onSearch?.(searchParams, tableInfo); }\<close>.
\<close>

definition slot_onSearch ::
  "('r, 'c) table_props \<Rightarrow> 'r table_information \<Rightarrow> search_params \<Rightarrow> ('r, 'e) call list" where
  "slot_onSearch tableProps info searchParams =
     (if onSearch tableProps then [OnSearch searchParams info] else [])"

text \<open>\<open>Button.onClick\<close>: \<open>e => tableProps.onInsertButtonClick?.(e, tableInfo)\<close>.\<close>

definition button_onClick ::
  "('r, 'c) table_props \<Rightarrow> 'r table_information \<Rightarrow> 'e \<Rightarrow> ('r, 'e) call list" where
  "button_onClick tableProps info e =
     (if onInsertButtonClick tableProps then [OnInsertButtonClick e info] else [])"

text \<open>
  The transition function that \<open>Menu.onClick\<close> passes to \<open>setTableState\<close>, on the key
  list: \<open>filter\<close> always returns an array, so \<open>|| []\<close> never applies.
\<close>

definition toggleDisplayColumnKey :: "string \<Rightarrow> string list \<Rightarrow> string list" where
  "toggleDisplayColumnKey e_key state_displayColumnKeys =
     (let displayColumnKeys = filter (\<lambda>k. k \<noteq> e_key) state_displayColumnKeys
      in if e_key \<notin> set state_displayColumnKeys
         then displayColumnKeys @ [e_key]
         else displayColumnKeys)"

text \<open>
  Modelled from the spec: \<open>setTableState\<close> is a property whose implementation
  (\<open>IDripTableContext\<close>) is not in the source files; section 4.3 gives it as the single
  mutation entry point that applies a transition \<open>(state) -> partialState\<close> atomically.
  The partial state here is \<open>{ displayColumnKeys }\<close>, merged into the state.
\<close>

definition setTableState ::
  "('z table_state_scheme \<Rightarrow> string list \<times> 'a) \<Rightarrow> 'z table_state_scheme
     \<Rightarrow> 'z table_state_scheme \<times> 'a" where
  "setTableState transition state =
     (let (partial_displayColumnKeys, effects) = transition state
      in (state\<lparr> displayColumnKeys := partial_displayColumnKeys \<rparr>, effects))"

text \<open>
  \<open>Menu.onClick\<close>: the transition computes the new keys, calls
  \<open>tableProps.onDisplayColumnKeysChange?.(displayColumnKeys, tableInfo)\<close> and returns
  \<open>{ displayColumnKeys }\<close>.
\<close>

definition menu_onClick ::
  "('r, 'c) table_props \<Rightarrow> 'r table_information \<Rightarrow> string \<Rightarrow> 'z table_state_scheme
     \<Rightarrow> 'z table_state_scheme \<times> ('r, 'e) call list" where
  "menu_onClick tableProps info e_key =
     setTableState (\<lambda>state.
       (let displayColumnKeys = toggleDisplayColumnKey e_key (displayColumnKeys state)
        in (displayColumnKeys,
            if onDisplayColumnKeysChange tableProps
            then [OnDisplayColumnKeysChange displayColumnKeys info]
            else [])))"

text \<open>\<open>Dropdown.onVisibleChange\<close>: \<open>(v) => { setDisplayColumnVisible(v); }\<close>.\<close>

definition dropdown_onVisibleChange :: "bool \<Rightarrow> 'r hooks \<Rightarrow> 'r hooks" where
  "dropdown_onVisibleChange v h = h\<lparr> displayColumnVisible := v \<rparr>"

text \<open>
  The interactions the driver can report, one per handler above, and the state change
  and callback invocations each causes.
\<close>

datatype 'e event =
    SelectChange "num_or_str option"
  | InputChange string
  | InputSearch string
  | SlotSearch search_params
  | ButtonClick 'e
  | MenuClick string
  | DropdownVisibleChange bool

fun handle ::
  "('r, 'c) table_props \<Rightarrow> 'r table_information \<Rightarrow> 'e event
     \<Rightarrow> 'r hooks \<times> 'z table_state_scheme
     \<Rightarrow> ('r hooks \<times> 'z table_state_scheme) \<times> ('r, 'e) call list" where
  "handle tableProps info (SelectChange v) (h, ts) = ((select_onChange v h, ts), [])"
| "handle tableProps info (InputChange v) (h, ts) = ((input_onChange v h, ts), [])"
| "handle tableProps info (InputSearch v) (h, ts) = ((h, ts), input_onSearch tableProps info h v)"
| "handle tableProps info (SlotSearch p) (h, ts) = ((h, ts), slot_onSearch tableProps info p)"
| "handle tableProps info (ButtonClick e) (h, ts) = ((h, ts), button_onClick tableProps info e)"
| "handle tableProps info (MenuClick k) (h, ts) =
     (let (ts', calls) = menu_onClick tableProps info k ts in ((h, ts'), calls))"
| "handle tableProps info (DropdownVisibleChange v) (h, ts) =
     ((dropdown_onVisibleChange v h, ts), [])"

text \<open>
  One interaction with the mounted component: the handlers are the closures of the
  latest render, which ran the hooks with the current \<open>tableProps\<close>.
\<close>

definition step ::
  "('r, 'c) table_props \<Rightarrow> 'e event \<Rightarrow> 'r hooks \<times> 'z table_state_scheme
     \<Rightarrow> ('r hooks \<times> 'z table_state_scheme) \<times> ('r, 'e) call list" where
  "step tableProps ev s =
     (let (info, h) = useTableInfo tableProps (fst s) in handle tableProps info ev (h, snd s))"

text \<open>Which interactions a rendered tree offers: the node carrying the handler is in it.\<close>

fun content_offers :: "('r, 'c) content \<Rightarrow> 'e event \<Rightarrow> bool" where
  "content_offers (SearchDiv n) (SelectChange v) = (search_select n \<noteq> None)"
| "content_offers (SearchDiv n) (InputChange v) = True"
| "content_offers (SearchDiv n) (InputSearch v) = True"
| "content_offers (SlotComponent f n) (SlotSearch p) = True"
| "content_offers (ButtonNode n) (ButtonClick e) = True"
| "content_offers (DropdownNode n) (MenuClick k) = (k \<in> set (map item_key (dd_overlay n)))"
| "content_offers (DropdownNode n) (DropdownVisibleChange v) = True"
| "content_offers _ _ = False"

definition offers :: "('r, 'c) generic_render_node option \<Rightarrow> 'e event \<Rightarrow> bool" where
  "offers tree ev =
     (case tree of
        None \<Rightarrow> False
      | Some node \<Rightarrow>
          list_ex (\<lambda>col. case col_children col of None \<Rightarrow> False | Some c \<Rightarrow> content_offers c ev)
            (row_children node))"

text \<open>
  Runs of the mounted component under fixed properties: each interaction is one the
  current tree offers; the callback invocations are collected in order.
\<close>

inductive run ::
  "(string \<rightharpoonup> string) \<Rightarrow> css option \<Rightarrow> element list \<Rightarrow> ('r, 'c) table_props
     \<Rightarrow> 'r hooks \<times> 'z table_state_scheme \<Rightarrow> ('r, 'e) call list
     \<Rightarrow> 'r hooks \<times> 'z table_state_scheme \<Rightarrow> bool"
  for styles :: "string \<rightharpoonup> string" and style_prop :: "css option"
    and schemas :: "element list" and tableProps :: "('r, 'c) table_props"
where
  run_start: "run styles style_prop schemas tableProps s [] s"
| run_event:
    "run styles style_prop schemas tableProps s calls s' \<Longrightarrow>
     offers (GenericRender styles style_prop schemas tableProps (snd s') (fst s')) ev \<Longrightarrow>
     step tableProps ev s' = (s'', calls') \<Longrightarrow>
     run styles style_prop schemas tableProps s (calls @ calls') s''"

text \<open>
  A sequence of \<open>Menu.onClick\<close> events with the given keys, whether or not the rendered
  menu has an entry for them: the final state and the callback invocations in order.
\<close>

fun clicks ::
  "('r, 'c) table_props \<Rightarrow> string list \<Rightarrow> 'r hooks \<times> 'z table_state_scheme
     \<Rightarrow> ('r hooks \<times> 'z table_state_scheme) \<times> ('r, 'e) call list" where
  "clicks tableProps [] s = (s, [])"
| "clicks tableProps (k # ks) s =
     (case step tableProps (MenuClick k) s of
        (s', calls) \<Rightarrow>
          (case clicks tableProps ks s' of (s'', calls') \<Rightarrow> (s'', calls @ calls')))"

section \<open>The life of a mounted component\<close>

text \<open>The Table Information argument of a callback invocation.\<close>

fun call_info :: "('r, 'e) call \<Rightarrow> 'r table_information" where
  "call_info (OnSearch p info) = info"
| "call_info (OnInsertButtonClick e info) = info"
| "call_info (OnDisplayColumnKeysChange ks info) = info"

text \<open>
  A mounted component is rendered again and again, each time with the \<open>tableProps\<close> its
  parent passes then; after a render the user may interact with the tree of that render.
  \<open>lifetime\<close> takes the renders in order, each with its properties and the interaction
  that followed it (if any), and returns every callback invocation paired with the
  properties of the render whose handler made it.
\<close>

fun lifetime ::
  "(('r, 'c) table_props \<times> 'e event option) list \<Rightarrow> 'r hooks \<times> 'z table_state_scheme
     \<Rightarrow> (('r, 'c) table_props \<times> ('r, 'e) call) list" where
  "lifetime [] s = []"
| "lifetime ((tableProps, None) # rest) s =
     lifetime rest (snd (useTableInfo tableProps (fst s)), snd s)"
| "lifetime ((tableProps, Some ev) # rest) s =
     (case step tableProps ev s of
        (s', calls) \<Rightarrow> map (Pair tableProps) calls @ lifetime rest s')"

text \<open>A \<open>useMemo\<close> cell is consistent when it holds the value computed for its dependencies.\<close>

definition memo_consistent ::
  "((num_or_str option \<times> 'r list) \<times> 'r table_information) option \<Rightarrow> bool" where
  "memo_consistent cell =
     (case cell of None \<Rightarrow> True | Some (deps, v) \<Rightarrow> v = tableInfoFactory deps)"

text \<open>
  The initial search key in the words of the specification: the first truthy
  \<open>searchKeyDefaultValue\<close> among the search elements, in array order.
\<close>

definition searchKeyDefaults :: "element list \<Rightarrow> num_or_str option list" where
  "searchKeyDefaults schemas =
     concat (map (\<lambda>s. case type s of Search c \<Rightarrow> [searchKeyDefaultValue c] | _ \<Rightarrow> []) schemas)"

definition firstTruthyDefault :: "element list \<Rightarrow> num_or_str option" where
  "firstTruthyDefault schemas =
     (case filter truthy (searchKeyDefaults schemas) of [] \<Rightarrow> None | v # _ \<Rightarrow> v)"

section \<open>Example configuration\<close>

text \<open>
  The schema of Scenario A of the specification, a toolbar holding the search element of
  Scenario B, a column selector, a hidden text and a slot, and the state of a fresh table
  (every column displayed).
\<close>

definition example_columns :: "column list" where
  "example_columns =
     [\<lparr> key = ''mock_1'', title = ''Name'', hidable = Some True \<rparr>,
      \<lparr> key = ''mock_2'', title = ''Description'', hidable = Some False \<rparr>]"

definition example_props :: "(string, string) table_props" where
  "example_props =
     \<lparr> schema = \<lparr> schema_id = Some (Str ''demo''), columns = example_columns \<rparr>,
       dataSource = [''row-1'', ''row-2''],
       slots = Some [''custom'' \<mapsto> ''CustomSlot''],
       onSearch = True,
       onInsertButtonClick = True,
       onDisplayColumnKeysChange = True \<rparr>"

definition example_info :: "string table_information" where
  "example_info = \<lparr> info_id = Some (Str ''demo''), info_dataSource = [''row-1'', ''row-2''] \<rparr>"

definition example_state :: table_state where
  "example_state = \<lparr> displayColumnKeys = [''mock_1'', ''mock_2''] \<rparr>"

definition plain :: "element_type \<Rightarrow> element" where
  "plain t =
     \<lparr> className = None, style = None, span_width = None, align = None, visible = None,
       type = t \<rparr>"

definition example_search :: search_element where
  "example_search =
     \<lparr> wrapperClassName = None, wrapperStyle = None, placeholder = None, allowClear = None,
       searchButtonText = None, searchButtonSize = None,
       searchKeys = Some [\<lparr> label = ''A'', option_value = Num 1 \<rparr>,
                          \<lparr> label = ''B'', option_value = Num 2 \<rparr>],
       searchKeyDefaultValue = None \<rparr>"

definition example_selector :: element where
  "example_selector =
     plain (DisplayColumnSelector \<lparr> selectorButtonText = None, selectorButtonType = None \<rparr>)"

definition example_slot :: slot_element where
  "example_slot = \<lparr> slot = ''custom'', props = None \<rparr>"

definition example_hidden :: element where
  "example_hidden = (plain (Text ''hidden''))\<lparr> visible := Some False \<rparr>"

definition example_schemas :: "element list" where
  "example_schemas =
     [plain (Search example_search),
      example_selector,
      example_hidden,
      plain (Slot example_slot)]"

text \<open>Two search elements in one toolbar, the first with the falsy default \<open>0\<close>.\<close>

definition example_two_searches :: "element list" where
  "example_two_searches =
     [plain (Search (example_search\<lparr> searchKeyDefaultValue := Some (Num 0) \<rparr>)),
      plain (Text ''or''),
      plain (Search (example_search\<lparr> searchKeyDefaultValue := Some (Str ''name'') \<rparr>))]"

definition example_falsy_searches :: "element list" where
  "example_falsy_searches =
     [plain (Search (example_search\<lparr> searchKeyDefaultValue := Some (Num 0) \<rparr>)),
      plain (Search (example_search\<lparr> searchKeyDefaultValue := Some (Str []) \<rparr>))]"

text \<open>
  The start of a life of the component: a search is submitted, then the parent passes a
  new data source.
\<close>

definition example_props_later :: "(string, string) table_props" where
  "example_props_later = example_props\<lparr> dataSource := [''row-3''] \<rparr>"

definition example_history :: "((string, string) table_props \<times> nat event option) list" where
  "example_history =
     [(example_props, Some (InputSearch ''abc'')),
      (example_props_later, None)]"

section \<open>The display-column toggle\<close>

lemma toggle_absent:
  "k \<notin> set ks \<Longrightarrow> toggleDisplayColumnKey k ks = ks @ [k]"
  by (auto simp: toggleDisplayColumnKey_def filter_id_conv)

lemma toggle_present:
  "k \<in> set ks \<Longrightarrow> toggleDisplayColumnKey k ks = filter (\<lambda>x. x \<noteq> k) ks"
  by (simp add: toggleDisplayColumnKey_def)

lemma set_toggle:
  "set (toggleDisplayColumnKey k ks) = (if k \<in> set ks then set ks - {k} else insert k (set ks))"
  by (auto simp: toggle_absent toggle_present)

lemma toggle_others:
  "filter (\<lambda>x. x \<noteq> k) (toggleDisplayColumnKey k ks) = filter (\<lambda>x. x \<noteq> k) ks"
  by (cases "k \<in> set ks") (simp_all add: toggle_absent toggle_present)

lemma toggle_twice:
  "toggleDisplayColumnKey k (toggleDisplayColumnKey k ks) =
     (if k \<in> set ks then filter (\<lambda>x. x \<noteq> k) ks @ [k] else ks)"
proof (cases "k \<in> set ks")
  case True
  then have "toggleDisplayColumnKey k ks = filter (\<lambda>x. x \<noteq> k) ks"
    by (rule toggle_present)
  moreover have "k \<notin> set (filter (\<lambda>x. x \<noteq> k) ks)" by simp
  ultimately show ?thesis using True by (simp add: toggle_absent)
next
  case False
  then have "toggleDisplayColumnKey k ks = ks @ [k]" by (rule toggle_absent)
  moreover have "k \<in> set (ks @ [k])" by simp
  ultimately show ?thesis using False by (auto simp: toggle_present filter_id_conv)
qed

lemma toggle_changes: "toggleDisplayColumnKey k ks \<noteq> ks"
proof (cases "k \<in> set ks")
  case True
  then have "length (filter (\<lambda>x. x \<noteq> k) ks) < length ks"
    by (simp add: length_filter_less)
  then show ?thesis using True by (auto simp: toggle_present)
next
  case False
  then show ?thesis by (simp add: toggle_absent)
qed

lemma menu_onClick_state:
  "fst (menu_onClick tableProps info k ts)
     = ts\<lparr> displayColumnKeys := toggleDisplayColumnKey k (displayColumnKeys ts) \<rparr>"
  by (simp add: menu_onClick_def setTableState_def Let_def)

lemma menu_onClick_calls:
  "snd (menu_onClick tableProps info k ts)
     = (if onDisplayColumnKeysChange tableProps
        then [OnDisplayColumnKeysChange (toggleDisplayColumnKey k (displayColumnKeys ts)) info]
        else [])"
  by (simp add: menu_onClick_def setTableState_def Let_def)

lemma render_dropdown_keys:
  assumes "renderColumnContent styles tableProps ts h config = Some (DropdownNode n)"
  shows "map item_key (dd_overlay n)
           = map key (filter (\<lambda>c. hidable c = Some True) (columns (schema tableProps)))"
  using assms
  by (auto simp: renderColumnContent_def Let_def comp_def
           split: element_type.splits option.splits if_splits)

lemma content_offers_menu:
  "content_offers c (MenuClick k)
     \<Longrightarrow> \<exists>n. c = DropdownNode n \<and> k \<in> set (map item_key (dd_overlay n))"
  by (cases c) auto

lemma offers_menu_click:
  assumes "offers (GenericRender styles style_prop schemas tableProps ts h) (MenuClick k :: 'e event)"
  shows "k \<in> set (map key (filter (\<lambda>c. hidable c = Some True) (columns (schema tableProps))))"
proof -
  from assms obtain item c0 where
      r: "renderColumnContent styles tableProps ts h item = Some c0"
      and o: "content_offers c0 (MenuClick k :: 'e event)"
    by (auto simp: offers_def GenericRender_def list_ex_iff in_set_enumerate_eq
             split: if_splits option.splits)
  from content_offers_menu [OF o] obtain n where
    "c0 = DropdownNode n" "k \<in> set (map item_key (dd_overlay n))" by blast
  with render_dropdown_keys [of styles tableProps ts h item n] r show ?thesis
    by simp
qed

lemma step_table_state:
  "displayColumnKeys (snd (fst (step tableProps ev s)))
     = (case ev of MenuClick k \<Rightarrow> toggleDisplayColumnKey k (displayColumnKeys (snd s))
        | _ \<Rightarrow> displayColumnKeys (snd s))"
  by (cases ev; cases s)
     (simp_all add: step_def useTableInfo_def Let_def split_beta menu_onClick_state)

text \<open>
  Claim C1, as the code has it. Clicking the same menu entry twice gives back the same
  members of the display list, and every field of the state other than the list is
  untouched; the list itself is restored only when the key was hidden at first. When the
  key was displayed, the two clicks leave it once, at the end of the list, after the
  other keys in their old order. A single click keeps every other key, as often as it
  occurred and in the same order: none is dropped or duplicated.
\<close>

theorem toggle_twice_moves_key_last:
  "fst (menu_onClick tableProps info k (fst (menu_onClick tableProps info k ts)))
     = ts\<lparr> displayColumnKeys :=
            (if k \<in> set (displayColumnKeys ts)
             then filter (\<lambda>x. x \<noteq> k) (displayColumnKeys ts) @ [k]
             else displayColumnKeys ts) \<rparr>
   \<and> set (displayColumnKeys
            (fst (menu_onClick tableProps info k (fst (menu_onClick tableProps info k ts)))))
       = set (displayColumnKeys ts)
   \<and> filter (\<lambda>x. x \<noteq> k) (displayColumnKeys (fst (menu_onClick tableProps info k ts)))
       = filter (\<lambda>x. x \<noteq> k) (displayColumnKeys ts)"
  by (auto simp: menu_onClick_state toggle_twice toggle_others)

text \<open>
  Claim C1 as stated fails: with both columns displayed, hiding and showing
  \<open>mock_1\<close> leaves the list \<open>[mock_2, mock_1]\<close>, not the list before.
\<close>

theorem toggle_twice_not_identity:
  "fst (menu_onClick example_props example_info ''mock_1''
         (fst (menu_onClick example_props example_info ''mock_1'' example_state)))
     \<noteq> example_state"
  by (simp add: menu_onClick_state toggle_twice example_state_def)

text \<open>
  Claim C6, as the code has it. The transition never consults the schema: for a key that
  is not a column key, and a display list holding column keys only, the click appends the
  key and reports the longer list to \<open>onDisplayColumnKeysChange\<close>, so the state
  changes. No branch of the handler fails. The rendered menu has no entry with such a
  key.
\<close>

theorem unknown_key_is_appended:
  assumes "k \<notin> set (map key (columns (schema tableProps)))"
      and "set (displayColumnKeys ts) \<subseteq> set (map key (columns (schema tableProps)))"
  shows "menu_onClick tableProps info k ts
           = (ts\<lparr> displayColumnKeys := displayColumnKeys ts @ [k] \<rparr>,
              if onDisplayColumnKeysChange tableProps
              then [OnDisplayColumnKeysChange (displayColumnKeys ts @ [k]) info] else [])
         \<and> fst (menu_onClick tableProps info k ts) \<noteq> ts
         \<and> \<not> offers (GenericRender styles style_prop schemas tableProps ts h) (MenuClick k)"
proof -
  from assms have k: "k \<notin> set (displayColumnKeys ts)" by auto
  have "ts\<lparr> displayColumnKeys := displayColumnKeys ts @ [k] \<rparr> \<noteq> ts"
  proof
    assume "ts\<lparr> displayColumnKeys := displayColumnKeys ts @ [k] \<rparr> = ts"
    then have "displayColumnKeys (ts\<lparr> displayColumnKeys := displayColumnKeys ts @ [k] \<rparr>)
                 = displayColumnKeys ts" by simp
    then show False by simp
  qed
  moreover have "\<not> offers (GenericRender styles style_prop schemas tableProps ts h) (MenuClick k)"
    using offers_menu_click [of styles style_prop schemas tableProps ts h k] assms(1) by auto
  ultimately show ?thesis
    using k by (simp add: prod_eq_iff menu_onClick_state menu_onClick_calls toggle_absent)
qed

theorem unknown_key_is_appended_witness:
  "''ghost'' \<notin> set (map key (columns (schema example_props)))
   \<and> set (displayColumnKeys example_state) \<subseteq> set (map key (columns (schema example_props)))
   \<and> menu_onClick example_props example_info ''ghost'' example_state
       = (\<lparr> displayColumnKeys = [''mock_1'', ''mock_2'', ''ghost''] \<rparr>,
          [OnDisplayColumnKeysChange [''mock_1'', ''mock_2'', ''ghost''] example_info
             :: (string, nat) call])"
proof -
  have a: "''ghost'' \<notin> set (map key (columns (schema example_props)))"
    by (simp add: example_props_def example_columns_def)
  have b: "set (displayColumnKeys example_state) \<subseteq> set (map key (columns (schema example_props)))"
    by (simp add: example_props_def example_columns_def example_state_def)
  have "menu_onClick example_props example_info ''ghost'' example_state
          = (example_state\<lparr> displayColumnKeys := displayColumnKeys example_state @ [''ghost''] \<rparr>,
             if onDisplayColumnKeysChange example_props
             then [OnDisplayColumnKeysChange (displayColumnKeys example_state @ [''ghost''])
                     example_info :: (string, nat) call]
             else [])"
    using unknown_key_is_appended [OF a b, of example_info] by (rule conjunct1)
  moreover have "onDisplayColumnKeysChange example_props"
    by (simp add: example_props_def)
  ultimately show ?thesis using a b by (simp add: example_state_def)
qed

text \<open>
  Claim C6 as stated fails: \<open>ghost\<close> is not a column of the example schema, and the
  transition with it changes the state.
\<close>

theorem unknown_key_changes_state:
  "''ghost'' \<notin> set (map key (columns (schema example_props)))
   \<and> fst (menu_onClick example_props example_info ''ghost'' example_state) \<noteq> example_state"
  by (simp add: menu_onClick_state toggle_absent example_state_def example_props_def
        example_columns_def)

text \<open>
  Along every run of the component under fixed table properties in which each
  interaction is one that the rendered toolbar offers, a display list that holds only
  keys of the schema's columns keeps doing so.
\<close>

lemma offered_runs_keep_keys:
  fixes calls :: "('r, 'e) call list"
  assumes "run styles style_prop schemas tableProps s calls s'"
      and "set (displayColumnKeys (snd s)) \<subseteq> set (map key (columns (schema tableProps)))"
  shows "set (displayColumnKeys (snd s')) \<subseteq> set (map key (columns (schema tableProps)))"
  using assms
proof (induction rule: run.induct)
  case run_start
  then show ?case by simp
next
  case (run_event s calls s' ev s'' calls')
  then have inv: "set (displayColumnKeys (snd s')) \<subseteq> set (map key (columns (schema tableProps)))"
    by simp
  have s'': "s'' = fst (step tableProps ev s')"
    using run_event.hyps(3) by simp
  show ?case
  proof (cases ev)
    case (MenuClick k)
    with run_event.hyps(2)
    have "offers (GenericRender styles style_prop schemas tableProps (snd s') (fst s'))
            (MenuClick k :: 'e event)"
      by simp
    from offers_menu_click [OF this]
    have "k \<in> set (map key (columns (schema tableProps)))" by auto
    with inv show ?thesis
      unfolding s'' step_table_state MenuClick by (auto simp: set_toggle)
  qed (use inv in \<open>simp_all add: s'' step_table_state\<close>)
qed

lemma clicks_keys:
  fixes s :: "'r hooks \<times> 'z table_state_scheme"
  shows "displayColumnKeys (snd (fst (clicks tableProps ks s :: _ \<times> ('r, 'e) call list)))
           = fold toggleDisplayColumnKey ks (displayColumnKeys (snd s))"
proof (induction ks arbitrary: s)
  case Nil
  then show ?case by simp
next
  case (Cons k ks)
  have "displayColumnKeys (snd (fst (step tableProps (MenuClick k :: 'e event) s)))
          = toggleDisplayColumnKey k (displayColumnKeys (snd s))"
    by (simp add: step_table_state)
  with Cons.IH [of "fst (step tableProps (MenuClick k :: 'e event) s)"] show ?case
    by (simp add: split_beta)
qed

lemma fold_toggle_subset:
  "set keys \<subseteq> A \<Longrightarrow> set ks \<subseteq> A \<Longrightarrow> set (fold toggleDisplayColumnKey ks keys) \<subseteq> A"
proof (induction ks arbitrary: keys)
  case Nil
  then show ?case by simp
next
  case (Cons k ks)
  then have "set (toggleDisplayColumnKey k keys) \<subseteq> A"
    by (auto simp: set_toggle split: if_splits)
  with Cons show ?case by simp
qed

text \<open>
  Claim C7, as the code has it. Starting from a display list that holds only keys of the
  schema's columns, any sequence of toggles whose keys are keys of the schema's columns,
  under unchanged table properties, leaves a display list that holds only such keys; and
  an entry of the rendered menu always has such a key. The handler itself does not look
  at the schema, and nothing in the component intersects the list with the columns.
\<close>

theorem display_keys_exist:
  fixes s :: "'r hooks \<times> 'z table_state_scheme"
  assumes "set (displayColumnKeys (snd s)) \<subseteq> set (map key (columns (schema tableProps)))"
  shows "(set ks \<subseteq> set (map key (columns (schema tableProps))) \<longrightarrow>
            set (displayColumnKeys (snd (fst (clicks tableProps ks s :: _ \<times> ('r, 'e) call list))))
              \<subseteq> set (map key (columns (schema tableProps))))
       \<and> (offers (GenericRender styles style_prop schemas tableProps (snd s) (fst s))
              (MenuClick k :: 'e event) \<longrightarrow>
            k \<in> set (map key (columns (schema tableProps))))"
proof -
  have "offers (GenericRender styles style_prop schemas tableProps (snd s) (fst s))
              (MenuClick k :: 'e event) \<longrightarrow>
            k \<in> set (map key (columns (schema tableProps)))"
    using offers_menu_click [of styles style_prop schemas tableProps "snd s" "fst s" k] by auto
  with assms show ?thesis
    by (simp add: clicks_keys fold_toggle_subset)
qed

lemma example_offers_click:
  "offers (GenericRender Some None example_schemas example_props example_state
             (initialHooks example_schemas :: string hooks))
     (MenuClick ''mock_1'' :: nat event)"
  by code_simp

lemma example_clicks:
  "clicks example_props [''mock_1'', ''mock_2'', ''mock_1'']
     (initialHooks example_schemas, example_state)
   = ((\<lparr> displayColumnVisible = False, searchStr = [], searchKey = None,
         tableInfoMemo =
           Some ((Some (Str ''demo''), [''row-1'', ''row-2'']), example_info) \<rparr>,
       \<lparr> displayColumnKeys = [''mock_1''] \<rparr>),
      [OnDisplayColumnKeysChange [''mock_2''] example_info,
       OnDisplayColumnKeysChange [] example_info,
       OnDisplayColumnKeysChange [''mock_1''] example_info :: (string, nat) call])"
  by code_simp

theorem display_keys_exist_witness:
  "set (displayColumnKeys example_state) \<subseteq> set (map key (columns (schema example_props)))
   \<and> set [''mock_1'', ''mock_2'', ''mock_1''] \<subseteq> set (map key (columns (schema example_props)))
   \<and> displayColumnKeys
        (snd (fst (clicks example_props [''mock_1'', ''mock_2'', ''mock_1'']
                     (initialHooks example_schemas, example_state)
                   :: _ \<times> (string, nat) call list)))
       = [''mock_1'']
   \<and> set [''mock_1''] \<subseteq> set (map key (columns (schema example_props)))
   \<and> offers (GenericRender Some None example_schemas example_props example_state
               (initialHooks example_schemas :: string hooks))
        (MenuClick ''mock_1'' :: nat event)
   \<and> ''mock_1'' \<in> set (map key (columns (schema example_props)))"
proof -
  let ?s = "(initialHooks example_schemas :: string hooks, example_state)"
  have a: "set (displayColumnKeys (snd ?s)) \<subseteq> set (map key (columns (schema example_props)))"
    by (simp add: example_props_def example_columns_def example_state_def)
  have b: "set [''mock_1'', ''mock_2'', ''mock_1'']
             \<subseteq> set (map key (columns (schema example_props)))"
    by (simp add: example_props_def example_columns_def)
  have o: "offers (GenericRender Some None example_schemas example_props (snd ?s) (fst ?s))
        (MenuClick ''mock_1'' :: nat event)"
    using example_offers_click by simp
  note inst = display_keys_exist
      [OF a, of "[''mock_1'', ''mock_2'', ''mock_1'']" Some None example_schemas "''mock_1''"]
  from inst b
  have "set (displayColumnKeys
               (snd (fst (clicks example_props [''mock_1'', ''mock_2'', ''mock_1''] ?s
                          :: _ \<times> (string, nat) call list))))
          \<subseteq> set (map key (columns (schema example_props)))"
    by blast
  then have c: "set [''mock_1''] \<subseteq> set (map key (columns (schema example_props)))"
    unfolding example_clicks by simp
  from inst o have d: "''mock_1'' \<in> set (map key (columns (schema example_props)))"
    by blast
  from a b c d o show ?thesis unfolding example_clicks by simp
qed

text \<open>
  Claim C7 as stated fails: from the valid list \<open>[mock_1, mock_2]\<close>, one toggle with
  the key \<open>ghost\<close> leaves a list that is not within the schema's column keys.
\<close>

theorem unknown_key_breaks_invariant:
  "set (displayColumnKeys example_state) \<subseteq> set (map key (columns (schema example_props)))
   \<and> \<not> set (displayColumnKeys
              (snd (fst (clicks example_props [''ghost'']
                           (initialHooks example_schemas, example_state)
                         :: (string hooks \<times> table_state) \<times> (string, nat) call list))))
         \<subseteq> set (map key (columns (schema example_props)))"
  unfolding clicks_keys
  by (simp add: toggle_absent example_state_def example_props_def example_columns_def)

text \<open>
  Claim C9. A click on the entry of a hidden column puts its key at the end of the
  display list, whatever the schema's column order is; hiding a displayed column and
  showing it again moves its key from where it was to the end.
\<close>

theorem shown_again_key_is_last:
  "(k \<notin> set (displayColumnKeys ts) \<longrightarrow>
      displayColumnKeys (fst (menu_onClick tableProps info k ts)) = displayColumnKeys ts @ [k])
   \<and> (k \<in> set (displayColumnKeys ts) \<longrightarrow>
      displayColumnKeys
        (fst (menu_onClick tableProps info k (fst (menu_onClick tableProps info k ts))))
        = filter (\<lambda>x. x \<noteq> k) (displayColumnKeys ts) @ [k])"
  by (simp add: menu_onClick_state toggle_twice toggle_absent)

theorem shown_again_key_is_last_witness:
  "''mock_1'' \<notin> set (displayColumnKeys \<lparr> displayColumnKeys = [''mock_2''] \<rparr>)
   \<and> displayColumnKeys
        (fst (menu_onClick example_props example_info ''mock_1''
               \<lparr> displayColumnKeys = [''mock_2''] \<rparr>))
       = [''mock_2'', ''mock_1'']
   \<and> ''mock_1'' \<in> set (displayColumnKeys example_state)
   \<and> displayColumnKeys
        (fst (menu_onClick example_props example_info ''mock_1''
               (fst (menu_onClick example_props example_info ''mock_1'' example_state))))
       = [''mock_2'', ''mock_1'']"
  using shown_again_key_is_last
          [of "''mock_1''" "\<lparr> displayColumnKeys = [''mock_2''] \<rparr>" example_props example_info]
        shown_again_key_is_last [of "''mock_1''" example_state example_props example_info]
  by (simp add: example_state_def)

section \<open>Table Information\<close>

lemma useTableInfo_value:
  assumes "memo_consistent (tableInfoMemo h)"
  shows "fst (useTableInfo tableProps h)
           = \<lparr> info_id = schema_id (schema tableProps), info_dataSource = dataSource tableProps \<rparr>"
  using assms
  by (auto simp: useTableInfo_def useMemo_def memo_consistent_def tableInfoFactory_def Let_def
           split: option.splits)

lemma useTableInfo_consistent:
  assumes "memo_consistent (tableInfoMemo h)"
  shows "memo_consistent (tableInfoMemo (snd (useTableInfo tableProps h)))"
  using assms
  by (auto simp: useTableInfo_def useMemo_def memo_consistent_def Let_def split: option.splits)

lemma handle_call_info:
  assumes "c \<in> set (snd (handle tableProps info ev s))"
  shows "call_info c = info"
  using assms
  by (cases ev; cases s)
     (auto simp: input_onSearch_def slot_onSearch_def button_onClick_def menu_onClick_calls
            split_beta split: if_splits)

lemma handle_memo:
  "tableInfoMemo (fst (fst (handle tableProps info ev (h, ts)))) = tableInfoMemo h"
  by (cases ev)
     (simp_all add: select_onChange_def input_onChange_def dropdown_onVisibleChange_def split_beta)

lemma step_call_info:
  assumes "memo_consistent (tableInfoMemo (fst s))"
      and "c \<in> set (snd (step tableProps ev s))"
  shows "call_info c
           = \<lparr> info_id = schema_id (schema tableProps), info_dataSource = dataSource tableProps \<rparr>"
proof -
  from assms(2) have "c \<in> set (snd (handle tableProps (fst (useTableInfo tableProps (fst s))) ev
                                      (snd (useTableInfo tableProps (fst s)), snd s)))"
    by (simp add: step_def split_beta)
  then have "call_info c = fst (useTableInfo tableProps (fst s))"
    by (rule handle_call_info)
  with useTableInfo_value [OF assms(1)] show ?thesis by simp
qed

lemma step_consistent:
  assumes "memo_consistent (tableInfoMemo (fst s))"
  shows "memo_consistent (tableInfoMemo (fst (fst (step tableProps ev s))))"
  using useTableInfo_consistent [OF assms, of tableProps]
  by (simp add: step_def split_beta handle_memo)

lemma lifetime_call_info:
  assumes "memo_consistent (tableInfoMemo (fst s))"
      and "(tableProps, c) \<in> set (lifetime rs s)"
  shows "call_info c
           = \<lparr> info_id = schema_id (schema tableProps), info_dataSource = dataSource tableProps \<rparr>"
  using assms
proof (induction rs s rule: lifetime.induct)
  case (1 s)
  then show ?case by simp
next
  case (2 p rest s)
  from "2.prems"(1) have "memo_consistent (tableInfoMemo (snd (useTableInfo p (fst s))))"
    by (rule useTableInfo_consistent)
  with 2 show ?case by simp
next
  case (3 p ev rest s)
  obtain s' calls where st: "step p ev s = (s', calls)" by (cases "step p ev s")
  from "3.prems"(2) st
  consider "tableProps = p" "c \<in> set calls" | "(tableProps, c) \<in> set (lifetime rest s')"
    by auto
  then show ?case
  proof cases
    case 1
    with step_call_info [OF "3.prems"(1), of c p ev] st show ?thesis by simp
  next
    case 2
    have "memo_consistent (tableInfoMemo (fst s'))"
      using step_consistent [OF "3.prems"(1), of p ev] st by simp
    from "3.IH" [OF st [symmetric] this 2] show ?thesis .
  qed
qed

lemma step_calls_consistent:
  fixes s :: "'r hooks \<times> 'z table_state_scheme"
  assumes "memo_consistent (tableInfoMemo (fst s))"
  shows "snd (step tableProps ev s)
           = snd (handle tableProps
                    \<lparr> info_id = schema_id (schema tableProps),
                      info_dataSource = dataSource tableProps \<rparr>
                    ev (snd (useTableInfo tableProps (fst s)), snd s))"
  using useTableInfo_value [OF assms, of tableProps]
  by (simp add: step_def split_beta)

lemma lifetime_last:
  fixes s :: "'r hooks \<times> 'z table_state_scheme"
    and rs :: "(('r, 'c) table_props \<times> 'e event option) list"
  assumes "memo_consistent (tableInfoMemo (fst s))"
  shows "\<exists>s' :: 'r hooks \<times> 'z table_state_scheme.
           memo_consistent (tableInfoMemo (fst s'))
         \<and> (\<forall>tp ev. lifetime (rs @ [(tp, Some ev)]) s
                      = lifetime rs s @ map (Pair tp) (snd (step tp ev s')))"
  using assms
proof (induction rs s rule: lifetime.induct)
  case (1 s)
  then show ?case by (intro exI [of _ s]) (simp add: split_beta)
next
  case (2 p rest s)
  from "2.prems" have "memo_consistent (tableInfoMemo (snd (useTableInfo p (fst s))))"
    by (rule useTableInfo_consistent)
  then have "memo_consistent (tableInfoMemo (fst (snd (useTableInfo p (fst s)), snd s)))"
    by simp
  from "2.IH" [OF this] show ?case by simp
next
  case (3 p ev0 rest s)
  obtain s1 calls where st: "step p ev0 s = (s1, calls)" by (cases "step p ev0 s")
  have "memo_consistent (tableInfoMemo (fst s1))"
    using step_consistent [OF "3.prems", of p ev0] st by simp
  from "3.IH" [OF st [symmetric] this] obtain s' :: "'r hooks \<times> 'z table_state_scheme" where
    "memo_consistent (tableInfoMemo (fst s'))"
    "\<forall>tp ev. lifetime (rest @ [(tp, Some ev)]) s1
                = lifetime rest s1 @ map (Pair tp) (snd (step tp ev s'))"
    by blast
  with st show ?case by (intro exI [of _ s']) simp
qed

text \<open>
  Claim C8, as the code has it. Whatever renders and interactions a mounted component has
  gone through, every callback invocation carries as its Table Information the schema
  identifier and the data source of the properties current at that render, and each of
  the four handlers (search submit, a slot's search, insert button, menu click) calls its
  callback, when the consumer passed it, exactly once with that value. The object has the
  two properties \<open>id\<close> and \<open>dataSource\<close>.
\<close>

theorem callbacks_receive_current_table_info:
  fixes rs :: "(('r, 'c) table_props \<times> 'e event option) list"
    and ts :: "'z table_state_scheme"
  shows
  "(\<forall>c. (tableProps, c) \<in> set (lifetime rs (initialHooks schemas, ts)) \<longrightarrow>
        call_info c = \<lparr> info_id = schema_id (schema tableProps),
                         info_dataSource = dataSource tableProps \<rparr>)
   \<and> (onSearch tableProps \<longrightarrow>
        (\<exists>k. lifetime (rs @ [(tableProps, Some (InputSearch v))]) (initialHooks schemas, ts)
               = lifetime rs (initialHooks schemas, ts)
                 @ [(tableProps,
                     OnSearch \<lparr> param_searchKey = k, param_searchStr = v \<rparr>
                       \<lparr> info_id = schema_id (schema tableProps),
                         info_dataSource = dataSource tableProps \<rparr>)]))
   \<and> (onSearch tableProps \<longrightarrow>
        lifetime (rs @ [(tableProps, Some (SlotSearch p))]) (initialHooks schemas, ts)
          = lifetime rs (initialHooks schemas, ts)
            @ [(tableProps,
                OnSearch p \<lparr> info_id = schema_id (schema tableProps),
                              info_dataSource = dataSource tableProps \<rparr>)])
   \<and> (onInsertButtonClick tableProps \<longrightarrow>
        lifetime (rs @ [(tableProps, Some (ButtonClick e))]) (initialHooks schemas, ts)
          = lifetime rs (initialHooks schemas, ts)
            @ [(tableProps,
                OnInsertButtonClick e \<lparr> info_id = schema_id (schema tableProps),
                                         info_dataSource = dataSource tableProps \<rparr>)])
   \<and> (onDisplayColumnKeysChange tableProps \<longrightarrow>
        (\<exists>ks. lifetime (rs @ [(tableProps, Some (MenuClick key_clicked))]) (initialHooks schemas, ts)
               = lifetime rs (initialHooks schemas, ts)
                 @ [(tableProps,
                     OnDisplayColumnKeysChange ks
                       \<lparr> info_id = schema_id (schema tableProps),
                         info_dataSource = dataSource tableProps \<rparr>)]))
   \<and> tableInfoProperties
        \<lparr> info_id = schema_id (schema tableProps), info_dataSource = dataSource tableProps \<rparr>
       = [(''id'', IdValue (schema_id (schema tableProps))),
          (''dataSource'', DataSourceValue (dataSource tableProps))]"
proof -
  let ?s0 = "(initialHooks schemas, ts) :: 'r hooks \<times> 'z table_state_scheme"
  have c0: "memo_consistent (tableInfoMemo (fst ?s0))"
    by (simp add: initialHooks_def memo_consistent_def)
  from lifetime_last [OF c0, of rs] obtain s' :: "'r hooks \<times> 'z table_state_scheme" where
    c: "memo_consistent (tableInfoMemo (fst s'))"
    and l: "\<And>tp ev. lifetime (rs @ [(tp, Some ev)]) ?s0
                = lifetime rs ?s0 @ map (Pair tp) (snd (step tp ev s'))"
    by blast
  have 1: "\<forall>c. (tableProps, c) \<in> set (lifetime rs ?s0) \<longrightarrow>
        call_info c = \<lparr> info_id = schema_id (schema tableProps),
                         info_dataSource = dataSource tableProps \<rparr>"
    using lifetime_call_info [OF c0] by blast
  show ?thesis
    using 1
    by (simp add: l step_calls_consistent [OF c] input_onSearch_def slot_onSearch_def
          button_onClick_def menu_onClick_calls split_beta tableInfoProperties_def)
qed

lemma example_initial_key: "initialSearchKey example_schemas = None"
  by (simp add: initialSearchKey_def example_schemas_def plain_def example_search_def
        example_selector_def example_hidden_def truthy_def)

lemma example_history_lifetime:
  "lifetime example_history (initialHooks example_schemas, example_state)
     = [(example_props,
         OnSearch \<lparr> param_searchKey = None, param_searchStr = ''abc'' \<rparr> example_info)]"
  by (simp add: example_history_def step_def useTableInfo_def useMemo_def tableInfoFactory_def
        initialHooks_def example_props_def example_props_later_def example_info_def
        example_state_def input_onSearch_def Let_def example_initial_key)

theorem callbacks_receive_current_table_info_witness:
  "(example_props,
    OnSearch \<lparr> param_searchKey = None, param_searchStr = ''abc'' \<rparr> example_info)
     \<in> set (lifetime example_history (initialHooks example_schemas, example_state))
   \<and> call_info (OnSearch \<lparr> param_searchKey = None, param_searchStr = ''abc'' \<rparr> example_info
                  :: (string, nat) call)
       = \<lparr> info_id = schema_id (schema example_props),
           info_dataSource = dataSource example_props \<rparr>
   \<and> onSearch example_props_later
   \<and> onInsertButtonClick example_props_later
   \<and> onDisplayColumnKeysChange example_props_later
   \<and> (\<exists>k. lifetime (example_history @ [(example_props_later, Some (InputSearch ''xyz''))])
              (initialHooks example_schemas, example_state)
            = [(example_props,
                OnSearch \<lparr> param_searchKey = None, param_searchStr = ''abc'' \<rparr> example_info),
               (example_props_later,
                OnSearch \<lparr> param_searchKey = k, param_searchStr = ''xyz'' \<rparr>
                  \<lparr> info_id = Some (Str ''demo''), info_dataSource = [''row-3''] \<rparr>)])
   \<and> lifetime (example_history
                 @ [(example_props_later,
                     Some (SlotSearch \<lparr> param_searchKey = Some (Num 2), param_searchStr = ''q'' \<rparr>))])
        (initialHooks example_schemas, example_state)
       = [(example_props,
           OnSearch \<lparr> param_searchKey = None, param_searchStr = ''abc'' \<rparr> example_info),
          (example_props_later,
           OnSearch \<lparr> param_searchKey = Some (Num 2), param_searchStr = ''q'' \<rparr>
             \<lparr> info_id = Some (Str ''demo''), info_dataSource = [''row-3''] \<rparr>)]
   \<and> lifetime (example_history @ [(example_props_later, Some (ButtonClick 7))])
        (initialHooks example_schemas, example_state)
       = [(example_props,
           OnSearch \<lparr> param_searchKey = None, param_searchStr = ''abc'' \<rparr> example_info),
          (example_props_later,
           OnInsertButtonClick 7
             \<lparr> info_id = Some (Str ''demo''), info_dataSource = [''row-3''] \<rparr>)]
   \<and> (\<exists>ks. lifetime (example_history @ [(example_props_later, Some (MenuClick ''mock_1''))])
              (initialHooks example_schemas, example_state)
            = [(example_props,
                OnSearch \<lparr> param_searchKey = None, param_searchStr = ''abc'' \<rparr> example_info),
               (example_props_later,
                OnDisplayColumnKeysChange ks
                  \<lparr> info_id = Some (Str ''demo''), info_dataSource = [''row-3''] \<rparr>)])"
proof -
  have m: "(example_props,
            OnSearch \<lparr> param_searchKey = None, param_searchStr = ''abc'' \<rparr> example_info)
             \<in> set (lifetime example_history (initialHooks example_schemas, example_state))"
    by (simp add: example_history_lifetime)
  have on: "onSearch example_props_later" "onInsertButtonClick example_props_later"
    "onDisplayColumnKeysChange example_props_later"
    by (simp_all add: example_props_later_def example_props_def)
  have p: "\<lparr> info_id = schema_id (schema example_props_later),
             info_dataSource = dataSource example_props_later \<rparr>
           = \<lparr> info_id = Some (Str ''demo''), info_dataSource = [''row-3''] \<rparr>"
    by (simp add: example_props_later_def example_props_def)
  note early = callbacks_receive_current_table_info
      [of example_props example_history example_schemas example_state]
  note late = callbacks_receive_current_table_info
      [of example_props_later example_history example_schemas example_state
          "''xyz''" "\<lparr> param_searchKey = Some (Num 2), param_searchStr = ''q'' \<rparr>" 7 "''mock_1''"]
  from early m
  have 1: "call_info (OnSearch \<lparr> param_searchKey = None, param_searchStr = ''abc'' \<rparr> example_info
                  :: (string, nat) call)
       = \<lparr> info_id = schema_id (schema example_props),
           info_dataSource = dataSource example_props \<rparr>"
    by blast
  from late on show ?thesis
    unfolding p example_history_lifetime
    using m 1 by simp
qed

text \<open>
  Claim C8 as stated fails in the name of the first property: the object passed to the
  callbacks has no property \<open>tableId\<close>; the identifier is under \<open>id\<close>.
\<close>

theorem table_info_has_no_tableId:
  "getInfoProperty (fst (useTableInfo example_props (initialHooks example_schemas))) ''tableId''
     = None
   \<and> getInfoProperty (fst (useTableInfo example_props (initialHooks example_schemas))) ''id''
     = Some (IdValue (Some (Str ''demo'')))"
  by (simp add: getInfoProperty_def tableInfoProperties_def useTableInfo_def useMemo_def
        tableInfoFactory_def initialHooks_def example_props_def)

section \<open>The toolbar composer\<close>

text \<open>
  Claim C2, as the code has it. An empty element list renders nothing. Otherwise the row
  has one column per element, in the array's order; the column at position \<open>i\<close> has
  key \<open>i\<close> and the class name, style and span of element \<open>i\<close>. An element whose
  \<open>visible\<close> is \<open>false\<close> is not left out of the row: it keeps its column, whose
  content is \<open>null\<close>; the content of any other column is the element's rendering.
\<close>

theorem toolbar_order_and_visibility:
  "(schemas = [] \<longrightarrow> GenericRender styles style_prop schemas tableProps ts h = None)
   \<and> (schemas \<noteq> [] \<longrightarrow>
        (\<exists>node. GenericRender styles style_prop schemas tableProps ts h = Some node
           \<and> length (row_children node) = length schemas
           \<and> (\<forall>i < length schemas.
                 col_key (row_children node ! i) = i
               \<and> col_className (row_children node ! i) = className (schemas ! i)
               \<and> col_style (row_children node ! i) = colStyle (schemas ! i) i (length schemas)
               \<and> col_span (row_children node ! i)
                   = (case span_width (schemas ! i) of Some (SpanNumber n) \<Rightarrow> Some n | _ \<Rightarrow> None)
               \<and> col_children (row_children node ! i)
                   = (if visible (schemas ! i) = Some False then None
                      else renderColumnContent styles tableProps ts h (schemas ! i)))))"
  by (simp add: GenericRender_def nth_enumerate_eq)

theorem toolbar_order_and_visibility_witness:
  "example_schemas \<noteq> []
   \<and> (\<exists>node. GenericRender Some None example_schemas example_props example_state
                 (initialHooks example_schemas) = Some node
         \<and> length (row_children node) = 4
         \<and> map col_key (row_children node) = [0, 1, 2, 3]
         \<and> visible (example_schemas ! 2) = Some False
         \<and> col_children (row_children node ! 2) = None
         \<and> col_children (row_children node ! 3)
             = renderColumnContent Some example_props example_state
                 (initialHooks example_schemas) (example_schemas ! 3))"
proof -
  have ne: "example_schemas \<noteq> []" and len: "length example_schemas = 4"
    and v: "visible (example_schemas ! 2) = Some False"
           "visible (example_schemas ! 3) \<noteq> Some False"
           "(2::nat) < length example_schemas" "(3::nat) < length example_schemas"
    by (simp_all add: example_schemas_def example_hidden_def plain_def)
  from toolbar_order_and_visibility
         [of example_schemas Some None example_props example_state "initialHooks example_schemas"]
       ne
  obtain node where
    n: "GenericRender Some None example_schemas example_props example_state
          (initialHooks example_schemas) = Some node"
       "length (row_children node) = length example_schemas"
    and a: "\<forall>i < length example_schemas.
         col_key (row_children node ! i) = i
       \<and> col_className (row_children node ! i) = className (example_schemas ! i)
       \<and> col_style (row_children node ! i) = colStyle (example_schemas ! i) i (length example_schemas)
       \<and> col_span (row_children node ! i)
           = (case span_width (example_schemas ! i) of Some (SpanNumber n) \<Rightarrow> Some n | _ \<Rightarrow> None)
       \<and> col_children (row_children node ! i)
           = (if visible (example_schemas ! i) = Some False then None
              else renderColumnContent Some example_props example_state
                     (initialHooks example_schemas) (example_schemas ! i))"
    by blast
  from a have k: "\<forall>i < 4. col_key (row_children node ! i) = i"
    by (simp add: len)
  have "map col_key (row_children node) = [0, 1, 2, 3]"
  proof (rule nth_equalityI)
    show "length (map col_key (row_children node)) = length [0, 1, 2, 3::nat]"
      using n(2) len by simp
  next
    fix i assume "i < length (map col_key (row_children node))"
    then have i: "i < 4" using n(2) len by simp
    then have "i = 0 \<or> i = 1 \<or> i = 2 \<or> i = 3" by arith
    with k i n(2) len show "map col_key (row_children node) ! i = [0, 1, 2, 3] ! i"
      by auto
  qed
  moreover from a v have "col_children (row_children node ! 2) = None"
    "col_children (row_children node ! 3)
             = renderColumnContent Some example_props example_state
                 (initialHooks example_schemas) (example_schemas ! 3)"
    by auto
  ultimately show ?thesis using n ne len v by simp
qed

text \<open>
  Claim C2 as stated fails: a toolbar whose only element has \<open>visible: false\<close> is
  rendered, and its row holds the column of that element, with key \<open>0\<close> and no
  content.
\<close>

theorem hidden_element_keeps_column:
  "visible example_hidden = Some False
   \<and> map_option (map col_key \<circ> row_children)
        (GenericRender Some None [example_hidden] example_props example_state
           (initialHooks [example_hidden]))
       = Some [0]
   \<and> map_option (map col_children \<circ> row_children)
        (GenericRender Some None [example_hidden] example_props example_state
           (initialHooks [example_hidden]))
       = Some [None]"
  by (simp add: GenericRender_def example_hidden_def plain_def)

section \<open>Slots\<close>

text \<open>
  For an identifier that is not the name of a member of \<open>Object.prototype\<close>, a slot
  element renders the function registered under its own identifier when there is one,
  else the function registered as \<open>default\<close> when there is one, else a \<open>span\<close> whose
  text is the fixed message around the missing identifier; it never renders \<open>null\<close>.
\<close>

lemma registered_slot_resolution:
  assumes "type config = Slot c"
      and "slot c \<notin> set object_prototype_names"
  shows "(\<forall>m f. slots tableProps = Some m \<and> m (slot c) = Some f \<longrightarrow>
            (\<exists>n. renderColumnContent styles tableProps ts h config
                    = Some (SlotComponent (Registered f) n)
                  \<and> slot_slotType n = slot c))
       \<and> (\<forall>m f. slots tableProps = Some m \<and> m (slot c) = None \<and> m ''default'' = Some f \<longrightarrow>
            (\<exists>n. renderColumnContent styles tableProps ts h config
                    = Some (SlotComponent (Registered f) n)
                  \<and> slot_slotType n = slot c))
       \<and> (slots tableProps = None
            \<or> (\<exists>m. slots tableProps = Some m \<and> m (slot c) = None \<and> m ''default'' = None) \<longrightarrow>
            renderColumnContent styles tableProps ts h config
              = Some (ErrorSpan (styles ''generic-render-slot-element__error'')
                        (slot_error_prefix @ slot c @ slot_error_suffix)))
       \<and> renderColumnContent styles tableProps ts h config \<noteq> None"
  using assms
  by (auto simp: renderColumnContent_def resolveSlot_def getProperty_def object_prototype_names_def
           split: option.splits)

text \<open>
  Claim C3 on the code, at an identifier that every object inherits. With an empty
  \<open>slots\<close> object and the slot \<open>toString\<close>, nothing is registered and there is no
  default, yet the read \<open>slots['toString']\<close> gives \<open>Object.prototype.toString\<close>,
  which is truthy: it is rendered as the slot and the error \<open>span\<close> is not. With only
  a default registered, the slot \<open>constructor\<close> resolves to the inherited member and
  not to the default.
\<close>

theorem inherited_member_resolves_as_slot:
  "renderColumnContent Some (example_props\<lparr> slots := Some Map.empty \<rparr>) example_state
        (initialHooks example_schemas) (plain (Slot \<lparr> slot = ''toString'', props = None \<rparr>))
     = Some (SlotComponent (Inherited ''toString'')
               \<lparr> slot_props = Map.empty,
                 slot_className = ''generic-render-slot-element'',
                 slot_slotType = ''toString'',
                 slot_schema = schema example_props,
                 slot_dataSource = dataSource example_props \<rparr>)
   \<and> renderColumnContent Some (example_props\<lparr> slots := Some Map.empty \<rparr>) example_state
        (initialHooks example_schemas) (plain (Slot \<lparr> slot = ''toString'', props = None \<rparr>))
       \<noteq> Some (ErrorSpan (Some ''generic-render-slot-element__error'')
                 (slot_error_prefix @ ''toString'' @ slot_error_suffix))
   \<and> renderColumnContent Some (example_props\<lparr> slots := Some [''default'' \<mapsto> ''Fallback''] \<rparr>)
        example_state (initialHooks example_schemas)
        (plain (Slot \<lparr> slot = ''constructor'', props = None \<rparr>))
     = Some (SlotComponent (Inherited ''constructor'')
               \<lparr> slot_props = Map.empty,
                 slot_className = ''generic-render-slot-element'',
                 slot_slotType = ''constructor'',
                 slot_schema = schema example_props,
                 slot_dataSource = dataSource example_props \<rparr>)"
  by (simp add: renderColumnContent_def resolveSlot_def getProperty_def
        object_prototype_names_def plain_def classnames_def List.map_filter_def)

section \<open>Search elements\<close>

lemma step_calls:
  "snd (step tableProps ev s)
     = snd (handle tableProps (fst (useTableInfo tableProps (fst s))) ev
              (snd (useTableInfo tableProps (fst s)), snd s))"
  by (simp add: step_def split_beta)

lemma useTableInfo_keeps_state:
  "searchKey (snd (useTableInfo tableProps h)) = searchKey h"
  "searchStr (snd (useTableInfo tableProps h)) = searchStr h"
  "displayColumnVisible (snd (useTableInfo tableProps h)) = displayColumnVisible h"
  by (simp_all add: useTableInfo_def Let_def)

text \<open>
  Claim C4. A change of the input text or of the selected key calls no callback. A
  submit calls \<open>onSearch\<close>, when the consumer passed it, once, with the selected key
  of the state, the submitted text and the render's \<open>tableInfo\<close>. No interaction other
  than a submit (or a slot's own search) calls \<open>onSearch\<close>.
\<close>

theorem search_fires_on_submit_only:
  "snd (step tableProps (InputChange v) s) = []
   \<and> snd (step tableProps (SelectChange k) s) = []
   \<and> (onSearch tableProps \<longrightarrow>
        snd (step tableProps (InputSearch v) s)
          = [OnSearch \<lparr> param_searchKey = searchKey (fst s), param_searchStr = v \<rparr>
               (fst (useTableInfo tableProps (fst s)))])
   \<and> ((\<exists>p i. OnSearch p i \<in> set (snd (step tableProps ev s))) \<longrightarrow>
        (\<exists>v. ev = InputSearch v) \<or> (\<exists>p. ev = SlotSearch p))"
proof -
  have "(\<exists>p i. OnSearch p i \<in> set (snd (step tableProps ev s))) \<longrightarrow>
        (\<exists>v. ev = InputSearch v) \<or> (\<exists>p. ev = SlotSearch p)"
    by (cases ev)
       (auto simp: step_calls button_onClick_def menu_onClick_calls split_beta split: if_splits)
  then show ?thesis
    by (simp add: step_calls input_onSearch_def useTableInfo_keeps_state)
qed

lemma example_typing:
  "step example_props (InputChange ''abc'' :: nat event)
     (initialHooks [plain (Search example_search)], example_state)
   = ((\<lparr> displayColumnVisible = False, searchStr = ''abc'', searchKey = None,
         tableInfoMemo =
           Some ((Some (Str ''demo''), [''row-1'', ''row-2'']), example_info) \<rparr>,
       example_state), [])"
  by code_simp

text \<open>
  Scenario B: the search element has keys \<open>A\<close>, \<open>B\<close> and no default; typing and
  submitting \<open>abc\<close> calls \<open>onSearch\<close> with an undefined key.
\<close>

theorem search_fires_on_submit_only_witness:
  "onSearch example_props
   \<and> searchKey (initialHooks [plain (Search example_search)] :: string hooks) = None
   \<and> snd (step example_props (InputChange ''abc'' :: nat event)
            (initialHooks [plain (Search example_search)], example_state)) = []
   \<and> snd (step example_props (InputSearch ''abc'' :: nat event)
            (fst (step example_props (InputChange ''abc'' :: nat event)
                    (initialHooks [plain (Search example_search)], example_state))))
       = [OnSearch \<lparr> param_searchKey = None, param_searchStr = ''abc'' \<rparr> example_info]"
proof -
  let ?s0 = "(initialHooks [plain (Search example_search)] :: string hooks, example_state)"
  let ?s1 = "fst (step example_props (InputChange ''abc'' :: nat event) ?s0)"
  have on: "onSearch example_props"
    by (simp add: example_props_def)
  have k0: "searchKey (initialHooks [plain (Search example_search)] :: string hooks) = None"
    by (simp add: initialHooks_def initialSearchKey_def plain_def example_search_def truthy_def)
  have k1: "searchKey (fst ?s1) = None"
    and i1: "fst (useTableInfo example_props (fst ?s1)) = example_info"
    unfolding example_typing
    by (simp_all add: useTableInfo_def useMemo_def example_props_def)
  from search_fires_on_submit_only [of example_props "''abc''" ?s0 "Some (Num 1)" "InputSearch ''abc''"]
  have a: "snd (step example_props (InputChange ''abc'' :: nat event) ?s0) = []"
    by blast
  from search_fires_on_submit_only
         [of example_props "''abc''" ?s1 "Some (Num 1)" "InputSearch ''abc'' :: nat event"] on
  have "snd (step example_props (InputSearch ''abc'' :: nat event) ?s1)
          = [OnSearch \<lparr> param_searchKey = searchKey (fst ?s1), param_searchStr = ''abc'' \<rparr>
               (fst (useTableInfo example_props (fst ?s1)))]"
    by blast
  with on k0 a show ?thesis by (simp only: k1 i1 simp_thms)
qed

lemma find_filter: "find P xs = (case filter P xs of [] \<Rightarrow> None | x # _ \<Rightarrow> Some x)"
  by (induction xs) auto

lemma truthy_empty: "\<not> truthy (Some (Str []))"
  by (simp add: truthy_def)

lemma initial_key_refines: "initialSearchKey schemas = firstTruthyDefault schemas"
proof -
  have "filter truthy
          (map (\<lambda>s. case type s of Search c \<Rightarrow> searchKeyDefaultValue c | _ \<Rightarrow> Some (Str []))
             schemas)
        = filter truthy (searchKeyDefaults schemas)"
    by (induction schemas)
       (auto simp: searchKeyDefaults_def truthy_empty split: element_type.splits)
  then show ?thesis
    by (simp add: initialSearchKey_def firstTruthyDefault_def find_filter split: list.splits)
qed

lemma falsy_defaults_give_none:
  assumes "\<forall>s \<in> set schemas. \<forall>c. type s = Search c \<longrightarrow>
             searchKeyDefaultValue c \<in> {None, Some (Num 0), Some (Str [])}"
  shows "filter truthy (searchKeyDefaults schemas) = []"
  using assms
  by (induction schemas)
     (auto simp: searchKeyDefaults_def truthy_def split: element_type.splits)

text \<open>
  Claim C10. Every search element of the toolbar shows the one \<open>searchStr\<close> and the one
  \<open>searchKey\<close> of the component, and its handlers write these two cells, whichever
  element they belong to. The text starts empty; the key starts as the first truthy
  \<open>searchKeyDefaultValue\<close> of the search elements in array order, and as
  \<open>undefined\<close> when every default is absent, \<open>0\<close> or the empty string.
\<close>

theorem search_state_is_shared:
  fixes h :: "'r hooks"
  shows
  "(\<forall>c. type config = Search c \<longrightarrow>
       (\<exists>n. renderColumnContent styles tableProps ts h config = Some (SearchDiv n)
          \<and> inp_value (search_input n) = searchStr h
          \<and> (\<forall>sel. search_select n = Some sel \<longrightarrow> sel_value sel = searchKey h)))
   \<and> select_onChange k h = h\<lparr> searchKey := k \<rparr>
   \<and> input_onChange v h = h\<lparr> searchStr := trim v \<rparr>
   \<and> searchStr (initialHooks schemas :: 'r hooks) = []
   \<and> searchKey (initialHooks schemas :: 'r hooks) = firstTruthyDefault schemas
   \<and> ((\<forall>s \<in> set schemas. \<forall>c. type s = Search c \<longrightarrow>
          searchKeyDefaultValue c \<in> {None, Some (Num 0), Some (Str [])}) \<longrightarrow>
        searchKey (initialHooks schemas :: 'r hooks) = None)"
proof -
  have "\<forall>c. type config = Search c \<longrightarrow>
       (\<exists>n. renderColumnContent styles tableProps ts h config = Some (SearchDiv n)
          \<and> inp_value (search_input n) = searchStr h
          \<and> (\<forall>sel. search_select n = Some sel \<longrightarrow> sel_value sel = searchKey h))"
    by (auto simp: renderColumnContent_def split: option.splits)
  moreover have "select_onChange k h = h\<lparr> searchKey := k \<rparr>"
    "input_onChange v h = h\<lparr> searchStr := trim v \<rparr>"
    by (simp_all add: select_onChange_def input_onChange_def)
  moreover have "searchStr (initialHooks schemas :: 'r hooks) = []"
    "searchKey (initialHooks schemas :: 'r hooks) = firstTruthyDefault schemas"
    by (simp_all add: initialHooks_def initial_key_refines)
  moreover have "(\<forall>s \<in> set schemas. \<forall>c. type s = Search c \<longrightarrow>
          searchKeyDefaultValue c \<in> {None, Some (Num 0), Some (Str [])}) \<longrightarrow>
        searchKey (initialHooks schemas :: 'r hooks) = None"
    by (auto simp: initialHooks_def initial_key_refines firstTruthyDefault_def
          falsy_defaults_give_none)
  ultimately show ?thesis by blast
qed

theorem search_state_is_shared_witness:
  "searchKey (initialHooks example_two_searches :: string hooks) = Some (Str ''name'')
   \<and> (\<exists>n sel. renderColumnContent Some example_props example_state
                  (initialHooks example_two_searches) (example_two_searches ! 0)
                  = Some (SearchDiv n)
          \<and> search_select n = Some sel
          \<and> sel_defaultValue sel = Some (Num 0)
          \<and> sel_value sel = Some (Str ''name''))
   \<and> (\<exists>n sel. renderColumnContent Some example_props example_state
                  (initialHooks example_two_searches) (example_two_searches ! 2)
                  = Some (SearchDiv n)
          \<and> search_select n = Some sel
          \<and> sel_defaultValue sel = Some (Str ''name'')
          \<and> sel_value sel = Some (Str ''name''))
   \<and> searchKey (initialHooks example_falsy_searches :: string hooks) = None"
proof -
  let ?h = "initialHooks example_two_searches :: string hooks"
  let ?c0 = "example_search\<lparr> searchKeyDefaultValue := Some (Num 0) \<rparr>"
  let ?c2 = "example_search\<lparr> searchKeyDefaultValue := Some (Str ''name'') \<rparr>"
  have t0: "type (example_two_searches ! 0) = Search ?c0"
    and t2: "type (example_two_searches ! 2) = Search ?c2"
    by (simp_all add: example_two_searches_def plain_def)
  have first: "firstTruthyDefault example_two_searches = Some (Str ''name'')"
    by (simp add: firstTruthyDefault_def searchKeyDefaults_def example_two_searches_def
          plain_def example_search_def truthy_def)
  have falsy: "\<forall>s \<in> set example_falsy_searches. \<forall>c. type s = Search c \<longrightarrow>
                 searchKeyDefaultValue c \<in> {None, Some (Num 0), Some (Str [])}"
    by (auto simp: example_falsy_searches_def plain_def)
  note inst0 = search_state_is_shared
      [of "example_two_searches ! 0" Some example_props example_state ?h
          "Some (Num 2)" "''abc''" example_two_searches]
  note inst2 = search_state_is_shared
      [of "example_two_searches ! 2" Some example_props example_state ?h
          "Some (Num 2)" "''abc''" example_falsy_searches]
  from inst0 first have k: "searchKey ?h = Some (Str ''name'')"
    by simp
  from inst2 falsy
  have none: "searchKey (initialHooks example_falsy_searches :: string hooks) = None"
    by blast
  from inst0 t0 obtain n0 where
    n0: "renderColumnContent Some example_props example_state ?h (example_two_searches ! 0)
           = Some (SearchDiv n0)"
        "\<forall>sel. search_select n0 = Some sel \<longrightarrow> sel_value sel = searchKey ?h"
    by blast
  from inst2 t2 obtain n2 where
    n2: "renderColumnContent Some example_props example_state ?h (example_two_searches ! 2)
           = Some (SearchDiv n2)"
        "\<forall>sel. search_select n2 = Some sel \<longrightarrow> sel_value sel = searchKey ?h"
    by blast
  from n0(1) obtain sel0 where
    s0: "search_select n0 = Some sel0" "sel_defaultValue sel0 = Some (Num 0)"
    by (auto simp: renderColumnContent_def example_two_searches_def plain_def example_search_def)
  from n2(1) obtain sel2 where
    s2: "search_select n2 = Some sel2" "sel_defaultValue sel2 = Some (Str ''name'')"
    by (auto simp: renderColumnContent_def example_two_searches_def plain_def example_search_def)
  from n0 s0 k have "\<exists>n sel. renderColumnContent Some example_props example_state
                  ?h (example_two_searches ! 0) = Some (SearchDiv n)
          \<and> search_select n = Some sel
          \<and> sel_defaultValue sel = Some (Num 0)
          \<and> sel_value sel = Some (Str ''name'')"
    by auto
  moreover from n2 s2 k have "\<exists>n sel. renderColumnContent Some example_props example_state
                  ?h (example_two_searches ! 2) = Some (SearchDiv n)
          \<and> search_select n = Some sel
          \<and> sel_defaultValue sel = Some (Str ''name'')
          \<and> sel_value sel = Some (Str ''name'')"
    by auto
  ultimately show ?thesis using k none by blast
qed

section \<open>The display-column selector\<close>

text \<open>
  Claim C5. The selector renders nothing when no column is hidable; otherwise its menu
  has one entry per hidable column, in schema order, and no other entry. A click on an
  entry toggles that key in the display list and, in the same transition, calls
  \<open>onDisplayColumnKeysChange\<close> (when the consumer passed it) with the whole new list
  and the render's \<open>tableInfo\<close>.
\<close>

theorem selector_lists_hidable_and_notifies:
  assumes "type config = DisplayColumnSelector c"
  shows "(filter (\<lambda>col. hidable col = Some True) (columns (schema tableProps)) = [] \<longrightarrow>
            renderColumnContent styles tableProps ts h config = None)
       \<and> (filter (\<lambda>col. hidable col = Some True) (columns (schema tableProps)) \<noteq> [] \<longrightarrow>
            (\<exists>n. renderColumnContent styles tableProps ts h config = Some (DropdownNode n)
               \<and> map item_key (dd_overlay n)
                   = map key (filter (\<lambda>col. hidable col = Some True) (columns (schema tableProps)))
               \<and> map item_children (dd_overlay n)
                   = map title (filter (\<lambda>col. hidable col = Some True) (columns (schema tableProps)))))
       \<and> (onDisplayColumnKeysChange tableProps \<longrightarrow>
            step tableProps (MenuClick k) (h, ts)
              = ((snd (useTableInfo tableProps h),
                  ts\<lparr> displayColumnKeys :=
                        (if k \<in> set (displayColumnKeys ts)
                         then filter (\<lambda>x. x \<noteq> k) (displayColumnKeys ts)
                         else displayColumnKeys ts @ [k]) \<rparr>),
                 [OnDisplayColumnKeysChange
                    (if k \<in> set (displayColumnKeys ts)
                     then filter (\<lambda>x. x \<noteq> k) (displayColumnKeys ts)
                     else displayColumnKeys ts @ [k])
                    (fst (useTableInfo tableProps h))]))"
proof -
  have t: "toggleDisplayColumnKey k (displayColumnKeys ts)
             = (if k \<in> set (displayColumnKeys ts)
                then filter (\<lambda>x. x \<noteq> k) (displayColumnKeys ts)
                else displayColumnKeys ts @ [k])"
    by (simp add: toggle_absent toggle_present)
  have "onDisplayColumnKeysChange tableProps \<longrightarrow>
          step tableProps (MenuClick k) (h, ts)
            = ((snd (useTableInfo tableProps h),
                ts\<lparr> displayColumnKeys := toggleDisplayColumnKey k (displayColumnKeys ts) \<rparr>),
               [OnDisplayColumnKeysChange (toggleDisplayColumnKey k (displayColumnKeys ts))
                  (fst (useTableInfo tableProps h))])"
    by (simp add: step_def split_beta prod_eq_iff menu_onClick_state menu_onClick_calls)
  moreover have "filter (\<lambda>col. hidable col = Some True) (columns (schema tableProps)) = [] \<longrightarrow>
            renderColumnContent styles tableProps ts h config = None"
    using assms by (simp add: renderColumnContent_def)
  moreover have "filter (\<lambda>col. hidable col = Some True) (columns (schema tableProps)) \<noteq> [] \<longrightarrow>
            (\<exists>n. renderColumnContent styles tableProps ts h config = Some (DropdownNode n)
               \<and> map item_key (dd_overlay n)
                   = map key (filter (\<lambda>col. hidable col = Some True) (columns (schema tableProps)))
               \<and> map item_children (dd_overlay n)
                   = map title (filter (\<lambda>col. hidable col = Some True) (columns (schema tableProps))))"
    using assms by (simp add: renderColumnContent_def comp_def)
  ultimately show ?thesis unfolding t by blast
qed

lemma example_selector_not_offered:
  "\<not> offers (GenericRender Some None example_schemas example_props example_state
               (initialHooks example_schemas :: string hooks))
       (MenuClick ''mock_2'' :: nat event)"
  by code_simp

text \<open>
  Scenario A: only \<open>mock_1\<close> is listed; hiding it reports \<open>[mock_2]\<close>; \<open>mock_2\<close>
  cannot be clicked.
\<close>

theorem selector_lists_hidable_and_notifies_witness:
  "type example_selector
     = DisplayColumnSelector \<lparr> selectorButtonText = None, selectorButtonType = None \<rparr>
   \<and> onDisplayColumnKeysChange example_props
   \<and> (\<exists>n. renderColumnContent Some example_props example_state (initialHooks example_schemas)
              example_selector = Some (DropdownNode n)
           \<and> map item_key (dd_overlay n) = [''mock_1''])
   \<and> snd (step example_props (MenuClick ''mock_1'' :: nat event)
            (initialHooks example_schemas, example_state))
       = [OnDisplayColumnKeysChange [''mock_2''] example_info]
   \<and> renderColumnContent Some
        (example_props\<lparr> schema := \<lparr> schema_id = None, columns = [] \<rparr> \<rparr>)
        example_state (initialHooks example_schemas) example_selector = None
   \<and> \<not> offers (GenericRender Some None example_schemas example_props example_state
                 (initialHooks example_schemas :: string hooks))
         (MenuClick ''mock_2'' :: nat event)"
proof -
  let ?c = "\<lparr> selectorButtonText = None, selectorButtonType = None \<rparr>"
  let ?h = "initialHooks example_schemas :: string hooks"
  let ?empty = "example_props\<lparr> schema := \<lparr> schema_id = None, columns = [] \<rparr> \<rparr>"
  have t: "type example_selector = DisplayColumnSelector ?c"
    by (simp add: example_selector_def plain_def)
  have on: "onDisplayColumnKeysChange example_props"
    by (simp add: example_props_def)
  have hid: "filter (\<lambda>col. hidable col = Some True) (columns (schema example_props))
               = [\<lparr> key = ''mock_1'', title = ''Name'', hidable = Some True \<rparr>]"
    by (simp add: example_props_def example_columns_def)
  have none: "filter (\<lambda>col. hidable col = Some True) (columns (schema ?empty)) = []"
    by simp
  have info: "fst (useTableInfo example_props ?h) = example_info"
    by (simp add: useTableInfo_def useMemo_def initialHooks_def tableInfoFactory_def
          example_props_def example_info_def)
  note inst = selector_lists_hidable_and_notifies
               [OF t, of example_props Some example_state ?h "''mock_1''"]
  from inst hid
  have 1: "\<exists>n. renderColumnContent Some example_props example_state ?h example_selector
                  = Some (DropdownNode n)
              \<and> map item_key (dd_overlay n) = [''mock_1'']"
    by auto
  from inst on
  have st: "step example_props (MenuClick ''mock_1'' :: nat event) (?h, example_state)
          = ((snd (useTableInfo example_props ?h),
              example_state\<lparr> displayColumnKeys :=
                (if ''mock_1'' \<in> set (displayColumnKeys example_state)
                 then filter (\<lambda>x. x \<noteq> ''mock_1'') (displayColumnKeys example_state)
                 else displayColumnKeys example_state @ [''mock_1'']) \<rparr>),
             [OnDisplayColumnKeysChange
               (if ''mock_1'' \<in> set (displayColumnKeys example_state)
                then filter (\<lambda>x. x \<noteq> ''mock_1'') (displayColumnKeys example_state)
                else displayColumnKeys example_state @ [''mock_1''])
               (fst (useTableInfo example_props ?h))])"
    by blast
  have 2: "snd (step example_props (MenuClick ''mock_1'' :: nat event) (?h, example_state))
          = [OnDisplayColumnKeysChange [''mock_2''] example_info]"
    unfolding st by (simp add: info example_state_def)
  from selector_lists_hidable_and_notifies
         [OF t, of ?empty Some example_state ?h "''mock_1''"] none
  have 3: "renderColumnContent Some ?empty example_state ?h example_selector = None"
    by blast
  from t on 1 2 3 example_selector_not_offered show ?thesis by blast
qed

end
